theory Spec2Isabelle
  imports Main "HOL-Library.Sublist"
begin

section \<open>Python strings\<close>

text \<open>
  Labels, paths and file lines are Python \<open>str\<close> values, modelled as \<open>string\<close>: the
  texts are taken to be ASCII, one \<open>char\<close> per character. The operations below are the
  ones the converters call on them.
\<close>

text \<open>\<open>sub in s\<close>: \<open>sub\<close> occurs in \<open>s\<close> as a contiguous substring.\<close>

primrec str_contains :: "string \<Rightarrow> string \<Rightarrow> bool" where
  "str_contains sub [] = (sub = [])"
| "str_contains sub (c # cs) = (prefix sub (c # cs) \<or> str_contains sub cs)"

text \<open>\<open>s.lower()\<close>: the letters \<open>A\<close> to \<open>Z\<close> become \<open>a\<close> to \<open>z\<close>.\<close>

definition lower_char :: "char \<Rightarrow> char" where
  "lower_char c =
     (case map_of (zip ''ABCDEFGHIJKLMNOPQRSTUVWXYZ'' ''abcdefghijklmnopqrstuvwxyz'') c of
        Some l \<Rightarrow> l
      | None \<Rightarrow> c)"

definition lower :: "string \<Rightarrow> string" where
  "lower s = map lower_char s"

text \<open>
  \<open>s.strip()\<close>: the characters Python's \<open>str.isspace\<close> accepts below 128 are
  tab to carriage return, the four separators 28 to 31, and the blank.
\<close>

definition isspace :: "char \<Rightarrow> bool" where
  "isspace c =
     (c \<in> set [CHR 0x09, CHR 0x0A, CHR 0x0B, CHR 0x0C, CHR 0x0D,
                 CHR 0x1C, CHR 0x1D, CHR 0x1E, CHR 0x1F, CHR '' ''])"

definition strip :: "string \<Rightarrow> string" where
  "strip s = rev (dropWhile isspace (rev (dropWhile isspace s)))"

text \<open>
  \<open>s.replace(old, new)\<close> for a non-empty \<open>old\<close>: the occurrences are replaced from
  left to right, without overlap.
\<close>

function str_replace :: "string \<Rightarrow> string \<Rightarrow> string \<Rightarrow> string" where
  "str_replace old new [] = []"
| "str_replace old new (c # cs) =
     (if old \<noteq> [] \<and> prefix old (c # cs)
      then new @ str_replace old new (drop (length old - 1) cs)
      else c # str_replace old new cs)"
  by pat_completeness auto
termination
  by (relation "measure (\<lambda>(old, new, s). length s)") auto

text \<open>\<open>str(n)\<close> for an integer, and \<open>'%0wd' % n\<close>.\<close>

definition digit_char :: "nat \<Rightarrow> char" where
  "digit_char d = ''0123456789'' ! d"

fun str_nat :: "nat \<Rightarrow> string" where
  "str_nat n = (if n < 10 then [digit_char n] else str_nat (n div 10) @ [digit_char (n mod 10)])"

declare str_nat.simps [simp del]

definition str_int :: "int \<Rightarrow> string" where
  "str_int i = (if i < 0 then CHR ''-'' # str_nat (nat (- i)) else str_nat (nat i))"

definition zero_pad :: "nat \<Rightarrow> int \<Rightarrow> string" where
  "zero_pad w i =
     (if i < 0 then CHR ''-'' # replicate (w - 1 - length (str_nat (nat (- i)))) CHR ''0'' @ str_nat (nat (- i))
      else replicate (w - length (str_nat (nat i))) CHR ''0'' @ str_nat (nat i))"

section \<open>Python datetime\<close>

text \<open>
  A \<open>datetime.datetime\<close> is its seven fields; a \<open>datetime.timedelta\<close> is a whole number
  of microseconds. The calendar functions follow CPython's \<open>datetime\<close> module.
\<close>

datatype exn =
    OverflowError string
  | ValueError string
  | IndexError string
  | OSError string

fun str_exn :: "exn \<Rightarrow> string" where
  "str_exn (OverflowError m) = m"
| "str_exn (ValueError m) = m"
| "str_exn (IndexError m) = m"
| "str_exn (OSError m) = m"

record datetime =
  year :: int
  month :: int
  day :: int
  hour :: int
  minute :: int
  second :: int
  microsecond :: int

type_synonym timedelta = int

definition is_leap :: "int \<Rightarrow> bool" where
  "is_leap y = (y mod 4 = 0 \<and> (y mod 100 \<noteq> 0 \<or> y mod 400 = 0))"

definition days_in_month :: "int \<Rightarrow> int \<Rightarrow> int" where
  "days_in_month y m =
     (if m = 2 then (if is_leap y then 29 else 28)
      else if m = 4 \<or> m = 6 \<or> m = 9 \<or> m = 11 then 30 else 31)"

definition days_before_year :: "int \<Rightarrow> int" where
  "days_before_year y = (let p = y - 1 in p * 365 + p div 4 - p div 100 + p div 400)"

definition days_before_month_tab :: "int list" where
  "days_before_month_tab = [0, 31, 59, 90, 120, 151, 181, 212, 243, 273, 304, 334]"

definition days_before_month :: "int \<Rightarrow> int \<Rightarrow> int" where
  "days_before_month y m =
     days_before_month_tab ! nat (m - 1) + (if m > 2 \<and> is_leap y then 1 else 0)"

definition ymd2ord :: "int \<Rightarrow> int \<Rightarrow> int \<Rightarrow> int" where
  "ymd2ord y m d = days_before_year y + days_before_month y m + d"

definition ord2ymd :: "int \<Rightarrow> int \<times> int \<times> int" where
  "ord2ymd n0 =
     (let n = n0 - 1;
          n400 = n div 146097; n = n mod 146097;
          n100 = n div 36524; n = n mod 36524;
          n4 = n div 1461; n = n mod 1461;
          n1 = n div 365; n = n mod 365;
          y = n400 * 400 + 1 + n100 * 100 + n4 * 4 + n1
      in if n1 = 4 \<or> n100 = 4 then (y - 1, 12, 31)
         else
           (let leapyear = (n1 = 3 \<and> (n4 \<noteq> 24 \<or> n100 = 3));
                m = (n + 50) div 32;
                preceding = days_before_month_tab ! nat (m - 1) + (if m > 2 \<and> leapyear then 1 else 0)
            in if preceding > n
               then (let m' = m - 1;
                         preceding' = preceding
                           - ((if m' = 2 then 28 else if m' = 4 \<or> m' = 6 \<or> m' = 9 \<or> m' = 11 then 30 else 31)
                              + (if m' = 2 \<and> leapyear then 1 else 0))
                     in (y, m', n - preceding' + 1))
               else (y, m, n - preceding + 1)))"

definition toordinal :: "datetime \<Rightarrow> int" where
  "toordinal dt = ymd2ord (year dt) (month dt) (day dt)"

text \<open>
  The constructor \<open>datetime(y, m, d, H, M, S, us)\<close> raises \<open>ValueError\<close> on a field out
  of range.
\<close>

definition mk_datetime :: "int \<Rightarrow> int \<Rightarrow> int \<Rightarrow> int \<Rightarrow> int \<Rightarrow> int \<Rightarrow> int \<Rightarrow> exn + datetime" where
  "mk_datetime y m d H M S us =
     (if \<not> (1 \<le> y \<and> y \<le> 9999) then Inl (ValueError ''year is out of range'')
      else if \<not> (1 \<le> m \<and> m \<le> 12) then Inl (ValueError ''month must be in 1..12'')
      else if \<not> (1 \<le> d \<and> d \<le> days_in_month y m) then Inl (ValueError ''day is out of range for month'')
      else if \<not> (0 \<le> H \<and> H \<le> 23) then Inl (ValueError ''hour must be in 0..23'')
      else if \<not> (0 \<le> M \<and> M \<le> 59) then Inl (ValueError ''minute must be in 0..59'')
      else if \<not> (0 \<le> S \<and> S \<le> 59) then Inl (ValueError ''second must be in 0..59'')
      else if \<not> (0 \<le> us \<and> us \<le> 999999) then Inl (ValueError ''microsecond must be in 0..999999'')
      else Inr \<lparr>year = y, month = m, day = d, hour = H, minute = M, second = S, microsecond = us\<rparr>)"

text \<open>The time of day in microseconds, and the microseconds since ordinal day 0.\<close>

definition time_of_day_us :: "datetime \<Rightarrow> int" where
  "time_of_day_us dt = (hour dt * 3600 + minute dt * 60 + second dt) * 1000000 + microsecond dt"

definition total_us :: "datetime \<Rightarrow> int" where
  "total_us dt = toordinal dt * 86400000000 + time_of_day_us dt"

text \<open>
  \<open>dt + td\<close>: \<open>OverflowError\<close> when the day leaves the years 1 to 9999 (ordinals 1 to
  3652059).
\<close>

definition datetime_add :: "datetime \<Rightarrow> timedelta \<Rightarrow> exn + datetime" where
  "datetime_add dt td =
     (let us = total_us dt + td;
          days = us div 86400000000;
          r = us mod 86400000000;
          secs = r div 1000000
      in if 0 < days \<and> days \<le> 3652059
         then (case ord2ymd days of (y, m, d) \<Rightarrow>
                 Inr \<lparr>year = y, month = m, day = d,
                      hour = secs div 3600, minute = (secs mod 3600) div 60, second = secs mod 60,
                      microsecond = r mod 1000000\<rparr>)
         else Inl (OverflowError ''date value out of range''))"

text \<open>\<open>a - b\<close> on two datetimes.\<close>

definition datetime_sub :: "datetime \<Rightarrow> datetime \<Rightarrow> timedelta" where
  "datetime_sub a b = total_us a - total_us b"

text \<open>\<open>dt.replace(microsecond=0)\<close>.\<close>

definition replace_microsecond0 :: "datetime \<Rightarrow> datetime" where
  "replace_microsecond0 dt = dt\<lparr>microsecond := 0\<rparr>"

text \<open>
  \<open>int(td.total_seconds())\<close>: the seconds of a timedelta, truncated towards zero.
  Python divides as a float first; the quotient is the same for every timedelta shorter
  than \<open>2^32\<close> seconds, where a float resolves single microseconds.
\<close>

definition int_total_seconds :: "timedelta \<Rightarrow> int" where
  "int_total_seconds td = (if td < 0 then - ((- td) div 1000000) else td div 1000000)"

text \<open>
  \<open>strftime('%H:%M:%S,%f')\<close> and \<open>strftime('%d.%m.%Y %H:%M:%S')\<close>. The year is written
  as glibc's \<open>%Y\<close> writes it, without padding (the year 999 as \<open>999\<close>).
\<close>

definition strftime_HMSf :: "datetime \<Rightarrow> string" where
  "strftime_HMSf dt =
     zero_pad 2 (hour dt) @ '':'' @ zero_pad 2 (minute dt) @ '':'' @ zero_pad 2 (second dt)
       @ '','' @ zero_pad 6 (microsecond dt)"

definition strftime_dmYHMS :: "datetime \<Rightarrow> string" where
  "strftime_dmYHMS dt =
     zero_pad 2 (day dt) @ ''.'' @ zero_pad 2 (month dt) @ ''.'' @ str_int (year dt) @ '' ''
       @ zero_pad 2 (hour dt) @ '':'' @ zero_pad 2 (minute dt) @ '':'' @ zero_pad 2 (second dt)"

section \<open>Embedded-annotation extractor (\<open>convert_edf_annotations.py\<close>)\<close>

text \<open>
  One entry of \<open>readAnnotations()\<close>: the onset and the duration, each already as the
  \<open>timedelta(seconds=...)\<close> the loop builds from the stored number, and the label. The
  stored number is a float and \<open>timedelta\<close> rounds it to the nearest microsecond
  (\<open>29.9999999\<close> seconds become 30 seconds); the model starts after that rounding.
\<close>

record annotation =
  onset_td :: timedelta
  duration_td :: timedelta
  ann_text :: string

text \<open>
  The recording as \<open>pyedflib.EdfReader\<close> presents it. Opening it and each of the two
  reads may raise.
\<close>

record edf_reader =
  getStartdatetime :: "exn + datetime"
  readAnnotations :: "exn + annotation list"

record event_data =
  onset_dt :: datetime
  onset_dt_full :: datetime
  end_dt :: datetime
  end_dt_full :: datetime
  event_text :: string

record categories =
  sleep_stages :: "event_data list"
  arousals :: "event_data list"
  flow_events :: "event_data list"

definition make_event :: "datetime \<Rightarrow> annotation \<Rightarrow> exn + event_data" where
  "make_event start_datetime a =
     (case datetime_add start_datetime (onset_td a) of
        Inl e \<Rightarrow> Inl e
      | Inr on_full \<Rightarrow>
          (case datetime_add on_full (duration_td a) of
             Inl e \<Rightarrow> Inl e
           | Inr end_full \<Rightarrow>
               Inr \<lparr>onset_dt = replace_microsecond0 on_full, onset_dt_full = on_full,
                    end_dt = replace_microsecond0 end_full, end_dt_full = end_full,
                    event_text = ann_text a\<rparr>))"

definition flow_keywords :: "string list" where
  "flow_keywords = [''Apnea'', ''Hyp'', ''Desat'']"

definition file_event :: "event_data \<Rightarrow> categories \<Rightarrow> categories" where
  "file_event ev acc =
     (if str_contains ''Sleep stage'' (event_text ev)
      then acc\<lparr>sleep_stages := sleep_stages acc @ [ev]\<rparr>
      else if str_contains ''arousal'' (lower (event_text ev))
      then acc\<lparr>arousals := arousals acc @ [ev]\<rparr>
      else if list_ex (\<lambda>keyword. str_contains keyword (event_text ev)) flow_keywords
      then acc\<lparr>flow_events := flow_events acc @ [ev]\<rparr>
      else acc)"

fun categorize :: "datetime \<Rightarrow> annotation list \<Rightarrow> categories \<Rightarrow> exn + categories" where
  "categorize start_datetime [] acc = Inr acc"
| "categorize start_datetime (a # as) acc =
     (case make_event start_datetime a of
        Inl e \<Rightarrow> Inl e
      | Inr ev \<Rightarrow> categorize start_datetime as (file_event ev acc))"

text \<open>
  The three writers. A file is the list of its lines; the header block ends with an
  empty line.
\<close>

definition sleep_stage_line :: "event_data \<Rightarrow> string" where
  "sleep_stage_line event =
     (let time_str = strftime_HMSf (onset_dt_full event);
          stage = strip (str_replace ''Sleep stage '' [] (event_text event));
          stage = (if stage = ''R'' then ''REM'' else stage)
      in time_str @ ''; '' @ stage)"

definition write_sleep_profile :: "datetime \<Rightarrow> event_data list \<Rightarrow> string list" where
  "write_sleep_profile start_dt events =
     [''Start Time: '' @ strftime_dmYHMS start_dt, ''Version: 1.0'', []] @ map sleep_stage_line events"

definition impulse_line :: "event_data \<Rightarrow> string" where
  "impulse_line event =
     (let onset_str = strftime_HMSf (onset_dt_full event);
          end_str = strftime_HMSf (end_dt_full event);
          duration = int_total_seconds (datetime_sub (end_dt_full event) (onset_dt_full event));
          event_name = event_text event
      in onset_str @ ''-'' @ end_str @ ''; '' @ str_int duration @ '';'' @ event_name)"

definition write_arousals :: "datetime \<Rightarrow> event_data list \<Rightarrow> string list" where
  "write_arousals start_dt events =
     [''Signal ID: Arousals'', ''Start Time: '' @ strftime_dmYHMS start_dt, ''Unit: s'',
      ''Signal Type: Impuls'', []] @ map impulse_line events"

definition write_flow_events :: "datetime \<Rightarrow> event_data list \<Rightarrow> string list" where
  "write_flow_events start_dt events =
     [''Signal ID: FlowEvents'', ''Start Time: '' @ strftime_dmYHMS start_dt, ''Unit: s'',
      ''Signal Type: Impuls'', []] @ map impulse_line events"

text \<open>
  What one run leaves behind: the start time it settled on and the three files. \<open>Inl e\<close>
  is the exception the function's own handler caught and printed; no file of this run is
  complete then.
\<close>

record conversion =
  effective_start :: datetime
  sleep_profile_txt :: "string list"
  arousals_txt :: "string list"
  flow_events_txt :: "string list"

definition convert_edf_annotations :: "(exn + edf_reader) \<Rightarrow> exn + conversion" where
  "convert_edf_annotations opened =
     (case opened of
        Inl e \<Rightarrow> Inl e
      | Inr f \<Rightarrow>
          (case getStartdatetime f of
             Inl e \<Rightarrow> Inl e
           | Inr start_datetime \<Rightarrow>
               (case readAnnotations f of
                  Inl e \<Rightarrow> Inl e
                | Inr annotations \<Rightarrow>
                    (case categorize start_datetime annotations
                            \<lparr>sleep_stages = [], arousals = [], flow_events = []\<rparr> of
                       Inl e \<Rightarrow> Inl e
                     | Inr cats \<Rightarrow>
                         (let effective_start =
                                (case sleep_stages cats of
                                   ev # _ \<Rightarrow> onset_dt ev
                                 | [] \<Rightarrow> start_datetime);
                              effective_start = replace_microsecond0 effective_start
                          in Inr \<lparr>effective_start = effective_start,
                                  sleep_profile_txt = write_sleep_profile effective_start (sleep_stages cats),
                                  arousals_txt = write_arousals effective_start (arousals cats),
                                  flow_events_txt = write_flow_events effective_start (flow_events cats)\<rparr>)))))"

text \<open>
  The categorization as the specification words it: ordered rules on the label, the first
  that applies decides, and a label that meets none is discarded (\<open>None\<close>).
\<close>

datatype kind = SleepStage | Arousal | FlowEvent

definition spec_kind :: "string \<Rightarrow> kind option" where
  "spec_kind label =
     (if str_contains ''Sleep stage'' label then Some SleepStage
      else if str_contains ''arousal'' (lower label) then Some Arousal
      else if str_contains ''Apnea'' label \<or> str_contains ''Hyp'' label \<or> str_contains ''Desat'' label
      then Some FlowEvent
      else None)"

definition of_kind :: "kind option \<Rightarrow> annotation \<Rightarrow> bool" where
  "of_kind k a = (spec_kind (ann_text a) = k)"

text \<open>
  The event-line format as the specification words it:
  \<open>HH:MM:SS,ffffff-HH:MM:SS,ffffff; <duration>;<label>\<close>, the label directly after the
  second semicolon. The duration field is not empty and holds neither a blank nor a
  semicolon.
\<close>

definition is_digit :: "char \<Rightarrow> bool" where
  "is_digit c = (c \<in> set ''0123456789'')"

definition is_clock_text :: "string \<Rightarrow> bool" where
  "is_clock_text s =
     (length s = 15 \<and> s ! 2 = CHR '':'' \<and> s ! 5 = CHR '':'' \<and> s ! 8 = CHR '',''
      \<and> list_all (\<lambda>i. is_digit (s ! i)) [0, 1, 3, 4, 6, 7, 9, 10, 11, 12, 13, 14])"

definition is_duration_text :: "string \<Rightarrow> bool" where
  "is_duration_text d = (d \<noteq> [] \<and> list_all (\<lambda>c. c \<noteq> CHR '';'' \<and> c \<noteq> CHR '' '') d)"

definition spec_event_line_form :: "string \<Rightarrow> string \<Rightarrow> bool" where
  "spec_event_line_form line label =
     (is_clock_text (take 15 line) \<and> take 1 (drop 15 line) = ''-''
      \<and> is_clock_text (take 15 (drop 16 line)) \<and> take 2 (drop 31 line) = ''; ''
      \<and> (let rest = drop 33 line; dur = takeWhile (\<lambda>c. c \<noteq> CHR '';'') rest
         in is_duration_text dur \<and> drop (length dur) rest = CHR '';'' # label))"

text \<open>
  The same with one blank between the second semicolon and the label.
\<close>

definition spaced_event_line_form :: "string \<Rightarrow> string \<Rightarrow> bool" where
  "spaced_event_line_form line label = spec_event_line_form line (CHR '' '' # label)"

section \<open>Spreadsheet-annotation extractor (\<open>convert_excel_annotations.py\<close>)\<close>

text \<open>
  An arousal or flow event as \<open>extract_arousals\<close> and \<open>extract_flow_events\<close> build it.
  The duration is a Python float; the writers only format it with \<open>{duration:.2f}\<close>,
  which is the parameter \<open>fmt_2f\<close> here.
\<close>

record 'f impulse =
  onset_time :: datetime
  end_time :: datetime
  duration :: 'f
  event_type :: string

definition excel_impulse_line :: "('f \<Rightarrow> string) \<Rightarrow> 'f impulse \<Rightarrow> string" where
  "excel_impulse_line fmt_2f ev =
     (let onset_str = strftime_HMSf (onset_time ev);
          end_str = strftime_HMSf (end_time ev);
          event_type = event_type ev
      in onset_str @ ''-'' @ end_str @ ''; '' @ fmt_2f (duration ev) @ ''; '' @ event_type)"

definition excel_write_arousals :: "('f \<Rightarrow> string) \<Rightarrow> datetime \<Rightarrow> 'f impulse list \<Rightarrow> string list" where
  "excel_write_arousals fmt_2f start_time events =
     [''Signal ID: Arousals'', ''Start Time: '' @ strftime_dmYHMS start_time, ''Unit: s'',
      ''Signal Type: Impuls'', []] @ map (excel_impulse_line fmt_2f) events"

definition excel_write_flow_events :: "('f \<Rightarrow> string) \<Rightarrow> datetime \<Rightarrow> 'f impulse list \<Rightarrow> string list" where
  "excel_write_flow_events fmt_2f start_time events =
     [''Signal ID: Flow Events'', ''Start Time: '' @ strftime_dmYHMS start_time, ''Unit: s'',
      ''Signal Type: Impuls'', []] @ map (excel_impulse_line fmt_2f) events"

text \<open>The range of the clock fields of a datetime.\<close>

definition valid_time :: "datetime \<Rightarrow> bool" where
  "valid_time dt =
     (0 \<le> hour dt \<and> hour dt \<le> 23 \<and> 0 \<le> minute dt \<and> minute dt \<le> 59
      \<and> 0 \<le> second dt \<and> second dt \<le> 59 \<and> 0 \<le> microsecond dt \<and> microsecond dt \<le> 999999)"

section \<open>The concrete scenario of the specification\<close>

text \<open>
  Header start \<open>01.01.2024 22:00:00\<close> and the annotations
  \<open>[(0.0, 0.0, "Sleep stage W"), (30.0, 0.0, "Sleep stage R"), (35.0, 12.0, "EEG arousal")]\<close>.
\<close>

definition scenario_start :: datetime where
  "scenario_start =
     \<lparr>year = 2024, month = 1, day = 1, hour = 22, minute = 0, second = 0, microsecond = 0\<rparr>"

definition scenario_annotations :: "annotation list" where
  "scenario_annotations =
     [\<lparr>onset_td = 0, duration_td = 0, ann_text = ''Sleep stage W''\<rparr>,
      \<lparr>onset_td = 30000000, duration_td = 0, ann_text = ''Sleep stage R''\<rparr>,
      \<lparr>onset_td = 35000000, duration_td = 12000000, ann_text = ''EEG arousal''\<rparr>]"

definition scenario_reader :: edf_reader where
  "scenario_reader =
     \<lparr>getStartdatetime = Inr scenario_start, readAnnotations = Inr scenario_annotations\<rparr>"

text \<open>The three files the specification expects for it.\<close>

definition scenario_output :: conversion where
  "scenario_output =
     \<lparr>effective_start = scenario_start,
      sleep_profile_txt =
        [''Start Time: 01.01.2024 22:00:00'', ''Version: 1.0'', [],
         ''22:00:00,000000; W'', ''22:00:30,000000; REM''],
      arousals_txt =
        [''Signal ID: Arousals'', ''Start Time: 01.01.2024 22:00:00'',
         ''Unit: s'', ''Signal Type: Impuls'', [],
         ''22:00:35,000000-22:00:47,000000; 12;EEG arousal''],
      flow_events_txt =
        [''Signal ID: FlowEvents'', ''Start Time: 01.01.2024 22:00:00'',
         ''Unit: s'', ''Signal Type: Impuls'', []]\<rparr>"

text \<open>
  A spreadsheet arousal, from the row \<open>Arousal - Dur: 19.6 sec. - RERA\<close> at
  \<open>22:00:35.00\<close>; the float is written by its two-decimal text.
\<close>

definition rera_arousal :: "string impulse" where
  "rera_arousal =
     \<lparr>onset_time = \<lparr>year = 2024, month = 1, day = 1, hour = 22, minute = 0, second = 35, microsecond = 0\<rparr>,
      end_time = \<lparr>year = 2024, month = 1, day = 1, hour = 22, minute = 0, second = 54, microsecond = 600000\<rparr>,
      duration = ''19.60'', event_type = ''RERA''\<rparr>"

text \<open>
  A second recording with the same header start: an arousal first, then the first sleep
  stage at \<open>30.7\<close> seconds, and the files the extractor writes for it.
\<close>

definition offset_annotations :: "annotation list" where
  "offset_annotations =
     [\<lparr>onset_td = 5000000, duration_td = 3000000, ann_text = ''EEG arousal''\<rparr>,
      \<lparr>onset_td = 30700000, duration_td = 0, ann_text = ''Sleep stage W''\<rparr>,
      \<lparr>onset_td = 60000000, duration_td = 0, ann_text = ''Sleep stage R''\<rparr>]"

definition offset_reader :: edf_reader where
  "offset_reader =
     \<lparr>getStartdatetime = Inr scenario_start, readAnnotations = Inr offset_annotations\<rparr>"

definition offset_output :: conversion where
  "offset_output =
     \<lparr>effective_start = scenario_start\<lparr>second := 30\<rparr>,
      sleep_profile_txt =
        [''Start Time: 01.01.2024 22:00:30'', ''Version: 1.0'', [],
         ''22:00:30,700000; W'', ''22:01:00,000000; REM''],
      arousals_txt =
        [''Signal ID: Arousals'', ''Start Time: 01.01.2024 22:00:30'',
         ''Unit: s'', ''Signal Type: Impuls'', [],
         ''22:00:05,000000-22:00:08,000000; 3;EEG arousal''],
      flow_events_txt =
        [''Signal ID: FlowEvents'', ''Start Time: 01.01.2024 22:00:30'',
         ''Unit: s'', ''Signal Type: Impuls'', []]\<rparr>"

text \<open>
  A recording whose header start has a sub-second part, \<open>22:00:00.05\<close>, and that holds
  one arousal and no sleep stage, and the files the extractor writes for it.
\<close>

definition subsecond_start :: datetime where
  "subsecond_start = scenario_start\<lparr>microsecond := 50000\<rparr>"

definition subsecond_annotations :: "annotation list" where
  "subsecond_annotations =
     [\<lparr>onset_td = 5000000, duration_td = 3000000, ann_text = ''EEG arousal''\<rparr>]"

definition subsecond_reader :: edf_reader where
  "subsecond_reader =
     \<lparr>getStartdatetime = Inr subsecond_start, readAnnotations = Inr subsecond_annotations\<rparr>"

definition subsecond_output :: conversion where
  "subsecond_output =
     \<lparr>effective_start = scenario_start,
      sleep_profile_txt = [''Start Time: 01.01.2024 22:00:00'', ''Version: 1.0'', []],
      arousals_txt =
        [''Signal ID: Arousals'', ''Start Time: 01.01.2024 22:00:00'',
         ''Unit: s'', ''Signal Type: Impuls'', [],
         ''22:00:05,050000-22:00:08,050000; 3;EEG arousal''],
      flow_events_txt =
        [''Signal ID: FlowEvents'', ''Start Time: 01.01.2024 22:00:00'',
         ''Unit: s'', ''Signal Type: Impuls'', []]\<rparr>"

text \<open>The events of the scenario, by category.\<close>

definition scenario_categories :: categories where
  "scenario_categories =
     (let t0 = scenario_start; t30 = scenario_start\<lparr>second := 30\<rparr>;
          t35 = scenario_start\<lparr>second := 35\<rparr>; t47 = scenario_start\<lparr>second := 47\<rparr>
      in \<lparr>sleep_stages =
             [\<lparr>onset_dt = t0, onset_dt_full = t0, end_dt = t0, end_dt_full = t0,
               event_text = ''Sleep stage W''\<rparr>,
              \<lparr>onset_dt = t30, onset_dt_full = t30, end_dt = t30, end_dt_full = t30,
               event_text = ''Sleep stage R''\<rparr>],
           arousals =
             [\<lparr>onset_dt = t35, onset_dt_full = t35, end_dt = t47, end_dt_full = t47,
               event_text = ''EEG arousal''\<rparr>],
           flow_events = []\<rparr>)"

text \<open>
  \<open>s.split(sep)\<close> for a one-character separator: the pieces between the separators, at
  least one.
\<close>

fun split_on :: "char \<Rightarrow> string \<Rightarrow> string list" where
  "split_on sep [] = [[]]"
| "split_on sep (c # cs) =
     (if c = sep then [] # split_on sep cs
      else (case split_on sep cs of p # ps \<Rightarrow> (c # p) # ps | [] \<Rightarrow> [[c]]))"

text \<open>
  \<open>int(s)\<close> for a string: the white space of C around it is dropped (tab to carriage
  return and the blank, not the separators 28 to 31), one sign may lead, and the digits
  \<open>0\<close> to \<open>9\<close> may hold single underscores between them. Anything else is a
  \<open>ValueError\<close>, and so is a literal of more than 4300 digits. The messages are
  shortened.
\<close>

definition int_space :: "char \<Rightarrow> bool" where
  "int_space c = (c \<in> set [CHR 0x09, CHR 0x0A, CHR 0x0B, CHR 0x0C, CHR 0x0D, CHR '' ''])"

fun digits_ok :: "string \<Rightarrow> bool" where
  "digits_ok [] = False"
| "digits_ok [c] = is_digit c"
| "digits_ok (c # d # ds) =
     (is_digit c \<and> (if d = CHR ''_'' then digits_ok ds else digits_ok (d # ds)))"

definition digit_val :: "char \<Rightarrow> int" where
  "digit_val c = int (of_char c) - 48"

definition digits_value :: "string \<Rightarrow> int" where
  "digits_value ds = foldl (\<lambda>acc c. acc * 10 + digit_val c) 0 (filter (\<lambda>c. c \<noteq> CHR ''_'') ds)"

definition py_int :: "string \<Rightarrow> exn + int" where
  "py_int s =
     (let t = rev (dropWhile int_space (rev (dropWhile int_space s)));
          (neg, body) = (case t of
                           c # r \<Rightarrow> (if c = CHR ''-'' then (True, r)
                                     else if c = CHR ''+'' then (False, r) else (False, t))
                         | [] \<Rightarrow> (False, t))
      in if \<not> digits_ok body
         then Inl (ValueError (''invalid literal for int() with base 10: '' @ s))
         else if length (filter (\<lambda>c. c \<noteq> CHR ''_'') body) > 4300
         then Inl (ValueError ''Exceeds the limit (4300 digits) for integer string conversion'')
         else Inr (if neg then - digits_value body else digits_value body))"

text \<open>\<open>xs[i]\<close> on a list, for an index that is not negative.\<close>

definition index :: "'a list \<Rightarrow> nat \<Rightarrow> exn + 'a" where
  "index xs i = (if i < length xs then Inr (xs ! i) else Inl (IndexError ''list index out of range''))"

text \<open>
  \<open>parse_timestamp\<close>: the body of its \<open>try\<close>, and the function, which on any exception
  prints a warning and returns the header start time.
\<close>

definition parse_timestamp_try :: "string \<Rightarrow> datetime \<Rightarrow> exn + datetime" where
  "parse_timestamp_try timestamp_str edf_start_time =
     (let parts = split_on CHR '':'' timestamp_str in
      case index parts 0 of Inl e \<Rightarrow> Inl e | Inr p0 \<Rightarrow>
      case py_int p0 of Inl e \<Rightarrow> Inl e | Inr hour' \<Rightarrow>
      case index parts 1 of Inl e \<Rightarrow> Inl e | Inr p1 \<Rightarrow>
      case py_int p1 of Inl e \<Rightarrow> Inl e | Inr minute' \<Rightarrow>
      case index parts 2 of Inl e \<Rightarrow> Inl e | Inr p2 \<Rightarrow>
      (let sec_parts = split_on CHR ''.'' p2 in
       case index sec_parts 0 of Inl e \<Rightarrow> Inl e | Inr s0 \<Rightarrow>
       case py_int s0 of Inl e \<Rightarrow> Inl e | Inr second' \<Rightarrow>
       case (if length sec_parts > 1 then py_int (take 2 (sec_parts ! 1)) else Inr 0) of
         Inl e \<Rightarrow> Inl e
       | Inr centisecond \<Rightarrow>
           (let microsecond' = centisecond * 10000
            in mk_datetime (year edf_start_time) (month edf_start_time) (day edf_start_time)
                 hour' minute' second' microsecond')))"

definition parse_timestamp :: "string \<Rightarrow> datetime \<Rightarrow> datetime" where
  "parse_timestamp timestamp_str edf_start_time =
     (case parse_timestamp_try timestamp_str edf_start_time of
        Inr timestamp \<Rightarrow> timestamp
      | Inl e \<Rightarrow> edf_start_time)"

text \<open>
  Python's order on datetimes, and on their times of day: field by field, the first
  difference decides.
\<close>

definition time_less :: "datetime \<Rightarrow> datetime \<Rightarrow> bool" where
  "time_less a b =
     (hour a < hour b \<or> (hour a = hour b \<and>
       (minute a < minute b \<or> (minute a = minute b \<and>
         (second a < second b \<or> (second a = second b \<and> microsecond a < microsecond b))))))"

definition datetime_less :: "datetime \<Rightarrow> datetime \<Rightarrow> bool" where
  "datetime_less a b =
     (year a < year b \<or> (year a = year b \<and>
       (month a < month b \<or> (month a = month b \<and>
         (day a < day b \<or> (day a = day b \<and> time_less a b))))))"

text \<open>A spreadsheet row after midnight, for the recording of the scenario.\<close>

definition after_midnight :: string where
  "after_midnight = ''00:30:00.00''"

section \<open>Paths (\<open>pathlib.Path\<close> on a POSIX system)\<close>

text \<open>
  A path is its root (\<open>/\<close>, \<open>//\<close> or none) and its components; empty components and
  \<open>.\<close> are dropped when the string is read.
\<close>

record path =
  root :: string
  tail :: "string list"

definition Path :: "string \<Rightarrow> path" where
  "Path s =
     \<lparr>root = (if prefix ''//'' s \<and> \<not> prefix ''///'' s then ''//''
              else if prefix ''/'' s then ''/'' else []),
      tail = filter (\<lambda>p. p \<noteq> [] \<and> p \<noteq> ''.'') (split_on CHR ''/'' s)\<rparr>"

fun join :: "string \<Rightarrow> string list \<Rightarrow> string" where
  "join sep [] = []"
| "join sep [x] = x"
| "join sep (x # y # ys) = x @ sep @ join sep (y # ys)"

definition str_path :: "path \<Rightarrow> string" where
  "str_path p = (if root p = [] \<and> tail p = [] then ''.'' else root p @ join ''/'' (tail p))"

definition name :: "path \<Rightarrow> string" where
  "name p = (if tail p = [] then [] else last (tail p))"

text \<open>
  The suffix of a name starts at its last dot, when that dot is neither the first nor the
  last character.
\<close>

definition suffix_index :: "string \<Rightarrow> nat option" where
  "suffix_index nm =
     (let k = length (takeWhile (\<lambda>c. c \<noteq> CHR ''.'') (rev nm))
      in if CHR ''.'' \<in> set nm \<and> 0 < k \<and> Suc k < length nm then Some (length nm - Suc k) else None)"

definition stem_of :: "string \<Rightarrow> string" where
  "stem_of nm = (case suffix_index nm of Some i \<Rightarrow> take i nm | None \<Rightarrow> nm)"

definition stem :: "path \<Rightarrow> string" where
  "stem p = stem_of (name p)"

definition parent :: "path \<Rightarrow> path" where
  "parent p = p\<lparr>tail := butlast (tail p)\<rparr>"

text \<open>\<open>p / s\<close>.\<close>

definition path_div :: "path \<Rightarrow> string \<Rightarrow> path" where
  "path_div p s = (let q = Path s in if root q \<noteq> [] then q else p\<lparr>tail := tail p @ tail q\<rparr>)"

text \<open>\<open>p.with_suffix(suf)\<close> raises \<open>ValueError\<close> on a path with an empty name.\<close>

definition with_suffix :: "path \<Rightarrow> string \<Rightarrow> exn + path" where
  "with_suffix p suf =
     (if name p = []
      then Inl (ValueError (''PosixPath('' @ [CHR 0x27] @ str_path p @ [CHR 0x27] @ '') has an empty name''))
      else Inr (p\<lparr>tail := butlast (tail p) @ [stem_of (name p) @ suf]\<rparr>))"

section \<open>Format classifier (\<open>detect_edf_format.py\<close>)\<close>

text \<open>
  What the classifier reads of an opened recording, and the part of the machine it
  probes: what \<open>Path.exists()\<close> answers for a path (it raises \<open>OSError\<close> on a name the
  file system refuses, such as an over-long one), what \<open>pyedflib.EdfReader\<close> makes of a
  path, and the bytes \<open>open(path, 'rb')\<close> gives.
\<close>

record edf_info =
  signals_in_file :: int
  filetype :: int
  annotations_in_file :: int
  getLabel :: "nat \<Rightarrow> exn + string"

record system =
  path_exists :: "string \<Rightarrow> exn + bool"
  EdfReader :: "string \<Rightarrow> exn + edf_info"
  open_rb :: "string \<Rightarrow> exn + string"

text \<open>The dictionaries the functions return share the key \<open>error\<close>, two of them \<open>success\<close>.\<close>

record with_error =
  error :: "string option"

record with_success = with_error +
  success :: bool

record detect_result = with_error +
  type :: string
  has_annotations :: bool
  pyedflib_compatible :: bool
  excel_file :: "string option"
  num_signals :: "int option"
  emg_channels :: "(nat \<times> string) list"

definition emg_keywords :: "string list" where
  "emg_keywords = [''EMG'', ''CHIN'', ''LEG'', ''Chin'', ''Lat'', ''Rat'']"

definition is_emg_label :: "string \<Rightarrow> bool" where
  "is_emg_label label = list_ex (\<lambda>keyword. str_contains keyword label) emg_keywords"

fun reader_labels :: "(nat \<Rightarrow> exn + string) \<Rightarrow> nat list \<Rightarrow> (nat \<times> string) list
    \<Rightarrow> exn + (nat \<times> string) list" where
  "reader_labels getL [] emg = Inr emg"
| "reader_labels getL (i # is) emg =
     (case getL i of
        Inl e \<Rightarrow> Inl e
      | Inr label \<Rightarrow> reader_labels getL is (if is_emg_label label then emg @ [(i, label)] else emg))"

text \<open>
  The first \<open>try\<close>: the exception that ends it, if any, and the result dictionary as it
  stands then.
\<close>

definition detect_with_pyedflib :: "'a system_scheme \<Rightarrow> path \<Rightarrow> detect_result \<Rightarrow> exn option \<times> detect_result" where
  "detect_with_pyedflib S edf_path result =
     (case EdfReader S (str_path edf_path) of
        Inl e \<Rightarrow> (Some e, result)
      | Inr f \<Rightarrow>
          (let result = result\<lparr>pyedflib_compatible := True, num_signals := Some (signals_in_file f)\<rparr>;
               result = result\<lparr>type := (if filetype f = 1 then ''EDF+C''
                                         else if filetype f = 2 then ''EDF+D'' else ''Standard'')\<rparr>;
               result = result\<lparr>has_annotations := (annotations_in_file f > 0)\<rparr>
           in case reader_labels (getLabel f) [0 ..< nat (signals_in_file f)] [] of
                Inl e \<Rightarrow> (Some e, result)
              | Inr emg \<Rightarrow> (None, result\<lparr>emg_channels := emg\<rparr>)))"

text \<open>
  \<open>bytes.decode('ascii', errors='ignore')\<close>, \<open>str.isdigit\<close> on the decoded text, and
  \<open>f.read(n)\<close>.
\<close>

definition decode_ascii_ignore :: "string \<Rightarrow> string" where
  "decode_ascii_ignore bs = filter (\<lambda>c. (of_char c :: nat) < 128) bs"

definition isdigit :: "string \<Rightarrow> bool" where
  "isdigit s = (s \<noteq> [] \<and> list_all is_digit s)"

definition read_n :: "int \<Rightarrow> string \<Rightarrow> string" where
  "read_n n bs = (if n < 0 then bs else take (nat n) bs)"

definition header_labels :: "int \<Rightarrow> string \<Rightarrow> (nat \<times> string) list" where
  "header_labels n label_bytes =
     filter (\<lambda>(i, label). is_emg_label label)
       (map (\<lambda>i. (i, strip (decode_ascii_ignore (take 16 (drop (i * 16) label_bytes)))))
          [0 ..< nat n])"

text \<open>The second \<open>try\<close>, the manual header reading.\<close>

definition detect_with_header :: "'a system_scheme \<Rightarrow> path \<Rightarrow> detect_result \<Rightarrow> exn option \<times> detect_result" where
  "detect_with_header S edf_path result =
     (case open_rb S (str_path edf_path) of
        Inl header_error \<Rightarrow> (Some header_error, result)
      | Inr content \<Rightarrow>
          (let header = read_n 256 content;
               num_signals_str = strip (decode_ascii_ignore (take 4 (drop 252 header)));
               result = (if isdigit num_signals_str
                         then result\<lparr>num_signals := Some (digits_value num_signals_str)\<rparr>
                         else result)
           in case num_signals result of
                None \<Rightarrow> (None, result)
              | Some n \<Rightarrow>
                  if n = 0 then (None, result)
                  else (let label_bytes = read_n (16 * n) (drop 256 content)
                        in (None, result\<lparr>emg_channels := header_labels n label_bytes\<rparr>))))"

text \<open>The result dictionary after the two nested \<open>try\<close> blocks.\<close>

definition detect_tries :: "'a system_scheme \<Rightarrow> path \<Rightarrow> detect_result" where
  "detect_tries S edf_path =
     (let result = \<lparr>error = None, type = ''Unknown'', has_annotations = False,
                    pyedflib_compatible = False, excel_file = None, num_signals = None,
                    emg_channels = []\<rparr>
      in case detect_with_pyedflib S edf_path result of
           (None, result) \<Rightarrow> result
         | (Some e, result) \<Rightarrow>
             (let result = result\<lparr>pyedflib_compatible := False, type := ''Standard''\<rparr>
              in case detect_with_header S edf_path result of
                   (None, result) \<Rightarrow> result
                 | (Some header_error, result) \<Rightarrow>
                     result\<lparr>error := Some (''pyedflib error: '' @ str_exn e
                                @ '', header read error: '' @ str_exn header_error)\<rparr>))"

text \<open>
  \<open>detect_edf_format\<close> starts with \<open>edf_path = Path(edf_path)\<close>, which parses a string
  and keeps a path as it is: \<open>detect_edf_format_at\<close> is the function from there on. The
  existence check of the path and the probing for the spreadsheet stand outside the
  \<open>try\<close> blocks: what they raise leaves the function.
\<close>

definition detect_edf_format_at :: "'a system_scheme \<Rightarrow> path \<Rightarrow> exn + detect_result" where
  "detect_edf_format_at S edf_path =
     (case path_exists S (str_path edf_path) of
        Inl e \<Rightarrow> Inl e
      | Inr present \<Rightarrow>
          if \<not> present
          then Inr \<lparr>error = Some (''File not found: '' @ str_path edf_path), type = ''Invalid'',
                    has_annotations = False, pyedflib_compatible = False, excel_file = None,
                    num_signals = None, emg_channels = []\<rparr>
          else
            (let result = detect_tries S edf_path
             in case with_suffix edf_path ''.xlsx'' of
                  Inl e \<Rightarrow> Inl e
                | Inr xlsx \<Rightarrow>
                    (case with_suffix edf_path ''.XLSX'' of
                       Inl e \<Rightarrow> Inl e
                     | Inr XLSX \<Rightarrow>
                         (case path_exists S (str_path xlsx) of
                            Inl e \<Rightarrow> Inl e
                          | Inr found \<Rightarrow>
                              if found then Inr (result\<lparr>excel_file := Some (str_path xlsx)\<rparr>)
                              else
                                (case path_exists S (str_path XLSX) of
                                   Inl e \<Rightarrow> Inl e
                                 | Inr found \<Rightarrow>
                                     if found then Inr (result\<lparr>excel_file := Some (str_path XLSX)\<rparr>)
                                     else Inr result)))))"

definition detect_edf_format :: "'a system_scheme \<Rightarrow> string \<Rightarrow> exn + detect_result" where
  "detect_edf_format S edf_path = detect_edf_format_at S (Path edf_path)"

section \<open>Conversion dispatcher (\<open>auto_convert.py\<close>)\<close>

text \<open>
  A finished child process as the dispatcher reads it, and the machine the dispatcher runs
  on: the interpreter, the directory of the scripts, and what \<open>subprocess.run\<close> makes of a
  command (it may raise).
\<close>

record proc =
  returncode :: int
  stderr :: string

record machine = system +
  sys_executable :: string
  script_dir :: path
  run :: "string list \<Rightarrow> exn + proc"

record outcome = with_success +
  converter_used :: "string option"
  output_files :: "string list"

definition text_files :: "path \<Rightarrow> string list" where
  "text_files edf_path =
     (let base_name = stem edf_path; output_dir = parent edf_path
      in [str_path (path_div output_dir (base_name @ '' Sleep profile.txt'')),
          str_path (path_div output_dir (base_name @ '' Classification Arousals.txt'')),
          str_path (path_div output_dir (base_name @ '' Flow Events.txt''))])"

definition finish :: "string option \<Rightarrow> string list \<Rightarrow> string option \<Rightarrow> outcome" where
  "finish converter files err =
     \<lparr>error = err, success = (err = None), converter_used = converter, output_files = files\<rparr>"

text \<open>
  \<open>convert_single_file\<close> with the commands it ran, in order. \<open>Inl e\<close> is an exception that
  leaves the function: the classifier is called outside the \<open>try\<close>. Like the classifier
  it starts with \<open>edf_path = Path(edf_path)\<close>; \<open>convert_single_file_at\<close> is the function
  from there on.
\<close>

definition convert_single_file_at :: "machine \<Rightarrow> path \<Rightarrow> exn + outcome \<times> string list list" where
  "convert_single_file_at M edf_path =
     (case detect_edf_format_at M edf_path of
        Inl e \<Rightarrow> Inl e
      | Inr result \<Rightarrow>
          if type result = ''Invalid''
          then Inr (\<lparr>error = error result, success = False, converter_used = None, output_files = []\<rparr>, [])
          else if type result = ''EDF+C'' \<and> has_annotations result
          then
            (let converter = ''convert_edf_annotations.py'';
                 cmd = [sys_executable M, str_path (path_div (script_dir M) converter), str_path edf_path]
             in case run M cmd of
                  Inl e \<Rightarrow> Inr (finish (Some converter) [] (Some (str_exn e)), [cmd])
                | Inr p \<Rightarrow>
                    if returncode p \<noteq> 0
                    then Inr (finish (Some converter) [] (Some (''Converter failed: '' @ stderr p)), [cmd])
                    else Inr (finish (Some converter) (text_files edf_path) None, [cmd]))
          else if type result = ''EDF+D''
          then Inr (finish (Some ''convert_test8_to_continuous.py + convert_edf_annotations.py'') []
                      (Some ''EDF+D conversion not yet fully automated. Please use convert_test8_to_continuous.py manually.''),
                    [])
          else if type result = ''Standard'' \<and> excel_file result \<noteq> None \<and> excel_file result \<noteq> Some []
          then
            (let converter = ''convert_excel_annotations.py + convert_standard_to_edfplus.py'';
                 edfplus_output = path_div (parent edf_path) (stem edf_path @ ''_edfplus.edf'');
                 cmd_edf = [sys_executable M, str_path (path_div (script_dir M) ''convert_standard_to_edfplus.py''),
                            str_path edf_path, str_path edfplus_output]
             in case run M cmd_edf of
                  Inl e \<Rightarrow> Inr (finish (Some converter) [] (Some (str_exn e)), [cmd_edf])
                | Inr proc_edf \<Rightarrow>
                    if returncode proc_edf \<noteq> 0
                    then Inr (finish (Some converter) []
                                (Some (''EDF conversion failed: '' @ stderr proc_edf)), [cmd_edf])
                    else
                      (let cmd_anno = [sys_executable M,
                                       str_path (path_div (script_dir M) ''convert_excel_annotations.py''),
                                       str_path edf_path, the (excel_file result)]
                       in case run M cmd_anno of
                            Inl e \<Rightarrow> Inr (finish (Some converter) [] (Some (str_exn e)), [cmd_edf, cmd_anno])
                          | Inr proc_anno \<Rightarrow>
                              if returncode proc_anno \<noteq> 0
                              then Inr (finish (Some converter) []
                                          (Some (''Annotation conversion failed: '' @ stderr proc_anno)),
                                        [cmd_edf, cmd_anno])
                              else Inr (finish (Some converter)
                                          (str_path edfplus_output # text_files edf_path) None,
                                        [cmd_edf, cmd_anno])))
          else Inr (finish None [] (Some ''No suitable converter found for this EDF format''), []))"

definition convert_single_file :: "machine \<Rightarrow> string \<Rightarrow> exn + outcome \<times> string list list" where
  "convert_single_file M edf_path = convert_single_file_at M (Path edf_path)"

text \<open>
  The script \<open>convert_edf_annotations.py\<close> as a child process. Its function catches every
  exception itself and prints it, so the script ends normally on both branches.
\<close>

definition convert_edf_annotations_main :: "(exn + edf_reader) \<Rightarrow> proc" where
  "convert_edf_annotations_main opened =
     (case convert_edf_annotations opened of
        Inl e \<Rightarrow> \<lparr>returncode = 0, stderr = []\<rparr>
      | Inr written \<Rightarrow> \<lparr>returncode = 0, stderr = []\<rparr>)"

subsection \<open>Batch conversion\<close>

text \<open>A directory as its listing shows it.\<close>

datatype fs_node = File string | Dir string "fs_node list"

fun node_name :: "fs_node \<Rightarrow> string" where
  "node_name (File n) = n"
| "node_name (Dir n es) = n"

text \<open>\<open>directory.glob('*' + suf)\<close>: the entries of the directory itself whose name ends in \<open>suf\<close>.\<close>

definition glob_suffix :: "string \<Rightarrow> fs_node list \<Rightarrow> string list" where
  "glob_suffix suf entries = filter (suffix suf) (map node_name entries)"

definition edf_files :: "path \<Rightarrow> fs_node list \<Rightarrow> path list" where
  "edf_files directory_path entries =
     map (path_div directory_path) (glob_suffix ''.EDF'' entries @ glob_suffix ''.edf'' entries)"

text \<open>What a listing of a directory is: the names differ and none holds a slash.\<close>

definition is_listing :: "fs_node list \<Rightarrow> bool" where
  "is_listing entries =
     (distinct (map node_name entries) \<and> list_all (\<lambda>e. CHR ''/'' \<notin> set (node_name e)) entries)"

record batch =
  total :: nat
  success_count :: nat
  failed_count :: nat
  results :: "(string \<times> outcome) list"

fun convert_each :: "machine \<Rightarrow> path list \<Rightarrow> batch \<Rightarrow> exn + batch" where
  "convert_each M [] b = Inr b"
| "convert_each M (edf_file # rest) b =
     (case convert_single_file_at M edf_file of
        Inl e \<Rightarrow> Inl e
      | Inr (result, cmds) \<Rightarrow>
          convert_each M rest
            (if success result
             then b\<lparr>results := results b @ [(str_path edf_file, result)],
                    success_count := success_count b + 1\<rparr>
             else b\<lparr>results := results b @ [(str_path edf_file, result)],
                    failed_count := failed_count b + 1\<rparr>))"

definition convert_directory :: "machine \<Rightarrow> path \<Rightarrow> fs_node \<Rightarrow> exn + batch option" where
  "convert_directory M directory_path node =
     (case node of
        File n \<Rightarrow> Inr None
      | Dir n entries \<Rightarrow>
          (let files = edf_files directory_path entries
           in if files = [] then Inr None
              else (case convert_each M files
                           \<lparr>total = length files, success_count = 0, failed_count = 0, results = []\<rparr> of
                      Inl e \<Rightarrow> Inl e
                    | Inr b \<Rightarrow> Inr (Some b))))"

text \<open>
  The dispatcher's report for a file: the call returned, and the outcome it returned has
  \<open>success\<close> set. The flag is the dispatcher's own; it says that the child processes ended
  with status 0.
\<close>

definition reports_success :: "machine \<Rightarrow> path \<Rightarrow> bool" where
  "reports_success M edf_file =
     (case convert_single_file_at M edf_file of
        Inl e \<Rightarrow> False
      | Inr (result, cmds) \<Rightarrow> success result)"

text \<open>
  The exit status of \<open>auto_convert.py <directory>\<close>. An exception that leaves
  \<open>convert_directory\<close> ends the interpreter with status 1.
\<close>

definition main_directory :: "machine \<Rightarrow> path \<Rightarrow> fs_node \<Rightarrow> int" where
  "main_directory M target_path node =
     (case convert_directory M target_path node of
        Inl e \<Rightarrow> 1
      | Inr None \<Rightarrow> 1
      | Inr (Some batch_result) \<Rightarrow> (if failed_count batch_result = 0 then 0 else 1))"

text \<open>
  The set of recordings as the specification words it: every file anywhere under the
  directory whose name ends in the recording extension, in any letter case.
\<close>

fun recordings_under :: "path \<Rightarrow> fs_node \<Rightarrow> string list" where
  "recordings_under d (File n) = (if suffix ''.edf'' (lower n) then [str_path (path_div d n)] else [])"
| "recordings_under d (Dir n es) = concat (map (recordings_under (path_div d n)) es)"

definition spec_recordings :: "path \<Rightarrow> fs_node \<Rightarrow> string list" where
  "spec_recordings d node =
     (case node of Dir n es \<Rightarrow> concat (map (recordings_under d) es) | File n \<Rightarrow> [])"

section \<open>Header-normalizing converter (\<open>convert_standard_to_edfplus.py\<close>)\<close>

text \<open>
  The converter works on floating-point samples; what is modelled is its control: whether
  the input exists, and which of its steps raises. Steps 1 to 3 read the recording with
  MNE, rescale and prepare the headers; step 4 writes and closes the new recording; step 5
  opens it again with \<open>pyedflib.EdfReader\<close> and reads its description.
\<close>

record conversion_steps =
  input_exists :: bool
  steps_1_to_3 :: "exn option"
  step_4_write :: "exn option"
  step_5_verify :: "exn option"

record edfplus_result = with_success +
  output_path :: "string option"

text \<open>
  The result and the recordings written and closed by the call. Nothing in the function
  removes a file.
\<close>

definition output_edf_path :: "path \<Rightarrow> string option \<Rightarrow> path" where
  "output_edf_path input_edf output_arg =
     (case output_arg of
        None \<Rightarrow> path_div (parent input_edf) (stem input_edf @ ''_edfplus.edf'')
      | Some out \<Rightarrow> Path out)"

definition convert_standard_to_edfplus ::
    "conversion_steps \<Rightarrow> string \<Rightarrow> string option \<Rightarrow> edfplus_result \<times> string list" where
  "convert_standard_to_edfplus W input_arg output_arg =
     (let input_edf = Path input_arg in
      if \<not> input_exists W
      then (\<lparr>error = Some (''Input file not found: '' @ str_path input_edf), success = False,
             output_path = None\<rparr>, [])
      else
        (let output_edf = output_edf_path input_edf output_arg
         in case steps_1_to_3 W of
              Some e \<Rightarrow> (\<lparr>error = Some (str_exn e), success = False, output_path = None\<rparr>, [])
            | None \<Rightarrow>
                (case step_4_write W of
                   Some e \<Rightarrow> (\<lparr>error = Some (str_exn e), success = False, output_path = None\<rparr>, [])
                 | None \<Rightarrow>
                     (case step_5_verify W of
                        Some e \<Rightarrow>
                          (\<lparr>error = Some (''Verification failed: '' @ str_exn e), success = False,
                            output_path = Some (str_path output_edf)\<rparr>, [str_path output_edf])
                      | None \<Rightarrow>
                          (\<lparr>error = None, success = True, output_path = Some (str_path output_edf)\<rparr>,
                           [str_path output_edf])))))"

section \<open>Concrete machines\<close>

text \<open>
  A machine with one recording, \<open>night.edf\<close>, that \<open>pyedflib\<close> opens: one EMG channel,
  one annotation, and the file type \<open>ft\<close> (1 is EDF+C, 2 is EDF+D). \<open>r\<close> is what running
  a command gives on it.
\<close>

definition night_machine :: "int \<Rightarrow> (string list \<Rightarrow> exn + proc) \<Rightarrow> machine" where
  "night_machine ft r =
     \<lparr>path_exists = (\<lambda>p. Inr (p = ''night.edf'')),
      EdfReader = (\<lambda>p. Inr \<lparr>signals_in_file = 1, filetype = ft, annotations_in_file = 1,
                            getLabel = (\<lambda>i. Inr ''EMG Chin'')\<rparr>),
      open_rb = (\<lambda>p. Inl (OSError ''not read'')),
      sys_executable = ''python3'',
      script_dir = Path ''code'',
      run = r\<rparr>"

definition no_run :: "string list \<Rightarrow> exn + proc" where
  "no_run cmd = Inl (OSError ''no such command'')"

text \<open>
  A recording whose header \<open>pyedflib\<close> rejects, with a readable header of zero signals and
  no spreadsheet beside it.
\<close>

definition plain_machine :: machine where
  "plain_machine =
     \<lparr>path_exists = (\<lambda>p. Inr (p = ''plain.edf'')),
      EdfReader = (\<lambda>p. Inl (OSError ''the file is not EDF(+) or BDF(+) compliant'')),
      open_rb = (\<lambda>p. Inr []),
      sys_executable = ''python3'',
      script_dir = Path ''code'',
      run = no_run\<rparr>"

text \<open>
  The embedded recording of an extractor run that fails: header start \<open>31.12.2084\<close>, one
  annotation \<open>Sleep stage W\<close> at onset \<open>3e11\<close> seconds; start plus onset lies beyond the
  year 9999.
\<close>

definition late_reader :: edf_reader where
  "late_reader =
     \<lparr>getStartdatetime =
        Inr \<lparr>year = 2084, month = 12, day = 31, hour = 22, minute = 0, second = 0, microsecond = 0\<rparr>,
      readAnnotations =
        Inr [\<lparr>onset_td = 300000000000000000, duration_td = 0, ann_text = ''Sleep stage W''\<rparr>]\<rparr>"

text \<open>Running a command on the machine that holds this recording runs the extractor's script on it.\<close>

definition late_run :: "string list \<Rightarrow> exn + proc" where
  "late_run cmd = Inr (convert_edf_annotations_main (Inr late_reader))"

text \<open>The file system root as a directory that exists and that nothing can open as a file.\<close>

definition root_machine :: machine where
  "root_machine =
     \<lparr>path_exists = (\<lambda>p. Inr (p = ''/'')),
      EdfReader = (\<lambda>p. Inl (OSError ''can not open file, no such file or directory'')),
      open_rb = (\<lambda>p. Inl (OSError ''Is a directory'')),
      sys_executable = ''python3'',
      script_dir = Path ''code'',
      run = no_run\<rparr>"

text \<open>A directory with a recording and with a second recording in a subdirectory.\<close>

definition night_entries :: "fs_node list" where
  "night_entries = [File ''night.edf'', Dir ''sub'' [File ''c.EDF'']]"

definition night_directory :: fs_node where
  "night_directory = Dir ''.'' night_entries"

text \<open>A child process that ends with status 0.\<close>

definition ok_run :: "string list \<Rightarrow> exn + proc" where
  "ok_run cmd = Inr \<lparr>returncode = 0, stderr = []\<rparr>"

text \<open>A conversion whose writing completes and whose verification raises.\<close>

definition unverified_steps :: conversion_steps where
  "unverified_steps =
     \<lparr>input_exists = True, steps_1_to_3 = None, step_4_write = None,
      step_5_verify = Some (OSError ''the file is not EDF(+) or BDF(+) compliant'')\<rparr>"

section \<open>Auxiliary facts\<close>

lemma make_event_text: "make_event s a = Inr ev \<Longrightarrow> event_text ev = ann_text a"
  by (auto simp: make_event_def split: sum.splits)

lemma file_event_kind:
  assumes "event_text ev = ann_text a"
  shows "sleep_stages (file_event ev acc) = sleep_stages acc @ (if of_kind (Some SleepStage) a then [ev] else [])"
    and "arousals (file_event ev acc) = arousals acc @ (if of_kind (Some Arousal) a then [ev] else [])"
    and "flow_events (file_event ev acc) = flow_events acc @ (if of_kind (Some FlowEvent) a then [ev] else [])"
  using assms by (simp_all add: file_event_def of_kind_def spec_kind_def flow_keywords_def)

lemma categorize_lists:
  "categorize s anns acc = Inr cats \<Longrightarrow>
     map Inr (sleep_stages cats) = map Inr (sleep_stages acc) @ map (make_event s) (filter (of_kind (Some SleepStage)) anns)
   \<and> map Inr (arousals cats) = map Inr (arousals acc) @ map (make_event s) (filter (of_kind (Some Arousal)) anns)
   \<and> map Inr (flow_events cats) = map Inr (flow_events acc) @ map (make_event s) (filter (of_kind (Some FlowEvent)) anns)"
proof (induction anns arbitrary: acc)
  case Nil
  then show ?case by simp
next
  case (Cons a anns)
  from Cons.prems obtain ev where ev: "make_event s a = Inr ev"
    and rest: "categorize s anns (file_event ev acc) = Inr cats"
    by (auto split: sum.splits)
  have et: "event_text ev = ann_text a" using ev by (rule make_event_text)
  show ?case
    using Cons.IH [OF rest] ev by (simp add: file_event_kind [OF et])
qed

lemma filter_kinds_length:
  "length (filter (of_kind (Some SleepStage)) anns) + length (filter (of_kind (Some Arousal)) anns)
     + length (filter (of_kind (Some FlowEvent)) anns) + length (filter (of_kind None) anns) = length anns"
proof (induction anns)
  case Nil
  show ?case by simp
next
  case (Cons a anns)
  show ?case
  proof (cases "spec_kind (ann_text a)")
    case None
    with Cons show ?thesis by (simp add: of_kind_def)
  next
    case (Some k)
    with Cons show ?thesis by (cases k) (simp_all add: of_kind_def)
  qed
qed

lemma str_nat_digits: "list_all is_digit (str_nat n)"
proof (induction n rule: str_nat.induct)
  case (1 n)
  have d: "is_digit (digit_char k)" if "k < 10" for k
    unfolding is_digit_def digit_char_def using that by (intro nth_mem) simp
  show ?case
  proof (cases "n < 10")
    case True
    then show ?thesis by (subst str_nat.simps) (simp add: d)
  next
    case False
    then show ?thesis using 1 by (subst str_nat.simps) (simp add: d)
  qed
qed

lemma str_nat_nonempty: "str_nat n \<noteq> []"
  by (subst str_nat.simps) simp

lemma str_nat_length: "n < 10 ^ w \<Longrightarrow> 0 < w \<Longrightarrow> length (str_nat n) \<le> w"
proof (induction n arbitrary: w rule: str_nat.induct)
  case (1 n)
  show ?case
  proof (cases "n < 10")
    case True
    then show ?thesis using "1.prems" by (subst str_nat.simps) simp
  next
    case False
    obtain v where w: "w = Suc v" using "1.prems"(2) by (cases w) auto
    have "v \<noteq> 0" using False "1.prems"(1) w by (cases v) auto
    then have v: "0 < v" by simp
    have "n div 10 < 10 ^ v" using "1.prems"(1) w by (simp add: less_mult_imp_div_less mult.commute)
    from "1.IH" [OF False this v] show ?thesis using False w by (subst str_nat.simps) simp
  qed
qed

lemma zero_pad_shape:
  assumes "0 \<le> i" "i < 10 ^ w" "0 < w"
  shows "length (zero_pad w i) = w" and "list_all is_digit (zero_pad w i)"
proof -
  have "nat i < 10 ^ w" using assms(1,2) by (simp add: nat_less_iff)
  then have l: "length (str_nat (nat i)) \<le> w" using assms(3) by (rule str_nat_length)
  show "length (zero_pad w i) = w" using assms(1) l by (simp add: zero_pad_def)
  have "is_digit CHR ''0''" by (simp add: is_digit_def)
  then show "list_all is_digit (zero_pad w i)"
    using assms(1) str_nat_digits [of "nat i"] by (auto simp: zero_pad_def list_all_iff)
qed

lemma clock_shape:
  assumes "length a = 2" "length b = 2" "length c = 2" "length d = 6"
    "list_all is_digit a" "list_all is_digit b" "list_all is_digit c" "list_all is_digit d"
  shows "is_clock_text (a @ '':'' @ b @ '':'' @ c @ '','' @ d)"
proof -
  obtain a0 a1 where a: "a = [a0, a1]" using assms(1)
    by (cases a; cases "tl a"; cases "tl (tl a)") auto
  obtain b0 b1 where b: "b = [b0, b1]" using assms(2)
    by (cases b; cases "tl b"; cases "tl (tl b)") auto
  obtain c0 c1 where c: "c = [c0, c1]" using assms(3)
    by (cases c; cases "tl c"; cases "tl (tl c)") auto
  obtain d0 d1 d2 d3 d4 d5 where d: "d = [d0, d1, d2, d3, d4, d5]" using assms(4)
    by (auto simp: length_Suc_conv eval_nat_numeral)
  show ?thesis using assms(5-8) by (simp add: a b c d is_clock_text_def)
qed

lemma strftime_HMSf_clock: "valid_time dt \<Longrightarrow> is_clock_text (strftime_HMSf dt)"
  unfolding strftime_HMSf_def valid_time_def
  by (intro clock_shape zero_pad_shape) simp_all

lemma strftime_HMSf_length: "valid_time dt \<Longrightarrow> length (strftime_HMSf dt) = 15"
  using strftime_HMSf_clock [of dt] by (simp add: is_clock_text_def)

lemma clock_fields_valid:
  fixes r :: int
  assumes "0 \<le> r" "r < 86400000000"
  shows "valid_time \<lparr>year = y, month = m, day = d, hour = r div 1000000 div 3600,
           minute = r div 1000000 mod 3600 div 60, second = r div 1000000 mod 60,
           microsecond = r mod 1000000\<rparr>"
proof -
  define secs where "secs = r div 1000000"
  have s: "0 \<le> secs" "secs < 86400" using assms unfolding secs_def by linarith+
  have h: "0 \<le> secs div 3600" "secs div 3600 \<le> 23" using s by linarith+
  have m: "0 \<le> secs mod 3600 div 60" "secs mod 3600 div 60 \<le> 59" by linarith+
  have c: "0 \<le> secs mod 60" "secs mod 60 \<le> 59" by linarith+
  have u: "0 \<le> r mod 1000000" "r mod 1000000 \<le> 999999" by linarith+
  have "valid_time \<lparr>year = y, month = m, day = d, hour = secs div 3600,
           minute = secs mod 3600 div 60, second = secs mod 60,
           microsecond = r mod 1000000\<rparr>"
    unfolding valid_time_def datetime.simps using h m c u by (intro conjI)
  then show ?thesis unfolding secs_def .
qed

lemma datetime_add_valid:
  assumes "datetime_add dt td = Inr t"
  shows "valid_time t"
proof -
  define us where "us = total_us dt + td"
  define r where "r = us mod 86400000000"
  obtain y m d where o: "ord2ymd (us div 86400000000) = (y, m, d)"
    by (cases "ord2ymd (us div 86400000000)") auto
  have r: "0 \<le> r" "r < 86400000000" by (simp_all add: r_def)
  have "t = \<lparr>year = y, month = m, day = d, hour = r div 1000000 div 3600,
           minute = r div 1000000 mod 3600 div 60, second = r div 1000000 mod 60,
           microsecond = r mod 1000000\<rparr>"
    using assms o unfolding datetime_add_def Let_def us_def [symmetric] r_def [symmetric]
    by (simp split: if_splits)
  then show ?thesis using clock_fields_valid [OF r] by simp
qed

lemma str_int_duration: "is_duration_text (str_int i)"
proof -
  have "c \<noteq> CHR '';'' \<and> c \<noteq> CHR '' ''" if "is_digit c" for c
    using that by (auto simp: is_digit_def)
  then have "list_all (\<lambda>c. c \<noteq> CHR '';'' \<and> c \<noteq> CHR '' '') (str_nat n)" for n
    using str_nat_digits [of n] by (simp add: list_all_iff)
  then show ?thesis by (simp add: is_duration_text_def str_int_def str_nat_nonempty)
qed

lemma event_line_formI:
  assumes "is_clock_text a" "is_clock_text b" "is_duration_text d"
  shows "spec_event_line_form (a @ ''-'' @ b @ ''; '' @ d @ '';'' @ label) label"
proof -
  have la: "length a = 15" and lb: "length b = 15" using assms(1,2) by (simp_all add: is_clock_text_def)
  have tw: "takeWhile (\<lambda>c. c \<noteq> CHR '';'') (d @ CHR '';'' # label) = d"
    using assms(3) by (intro takeWhile_tail [THEN trans]) (auto simp: is_duration_text_def list_all_iff)
  show ?thesis
    using assms by (simp add: spec_event_line_form_def la lb tw Let_def)
qed

lemma find_filter_conv:
  "List.find P xs = (case filter P xs of [] \<Rightarrow> None | x # _ \<Rightarrow> Some x)"
  by (induction xs) auto

lemma of_kind_sleep: "of_kind (Some SleepStage) a = str_contains ''Sleep stage'' (ann_text a)"
  by (simp add: of_kind_def spec_kind_def)

lemma replace_microsecond0_idem: "replace_microsecond0 (replace_microsecond0 t) = replace_microsecond0 t"
  by (simp add: replace_microsecond0_def)

lemma strftime_dmYHMS_replace: "strftime_dmYHMS (replace_microsecond0 t) = strftime_dmYHMS t"
  by (simp add: replace_microsecond0_def strftime_dmYHMS_def)

lemma convert_edf_annotations_Inr:
  assumes "convert_edf_annotations (Inr f) = Inr out"
  obtains start anns cats where
    "getStartdatetime f = Inr start" "readAnnotations f = Inr anns"
    "categorize start anns \<lparr>sleep_stages = [], arousals = [], flow_events = []\<rparr> = Inr cats"
    "effective_start out = replace_microsecond0 (case sleep_stages cats of ev # _ \<Rightarrow> onset_dt ev | [] \<Rightarrow> start)"
    "sleep_profile_txt out = write_sleep_profile (effective_start out) (sleep_stages cats)"
    "arousals_txt out = write_arousals (effective_start out) (arousals cats)"
    "flow_events_txt out = write_flow_events (effective_start out) (flow_events cats)"
  using assms unfolding convert_edf_annotations_def
  by (auto simp: Let_def split: sum.splits)

lemma make_event_valid:
  assumes "make_event s a = Inr ev"
  shows "valid_time (onset_dt_full ev)" and "valid_time (end_dt_full ev)"
proof -
  from assms obtain t1 t2 where t1: "datetime_add s (onset_td a) = Inr t1"
    and t2: "datetime_add t1 (duration_td a) = Inr t2"
    and ev: "onset_dt_full ev = t1" "end_dt_full ev = t2"
    by (auto simp: make_event_def split: sum.splits)
  show "valid_time (onset_dt_full ev)" using datetime_add_valid [OF t1] ev by simp
  show "valid_time (end_dt_full ev)" using datetime_add_valid [OF t2] ev by simp
qed

lemma impulse_line_form:
  assumes "make_event s a = Inr ev"
  shows "spec_event_line_form (impulse_line ev) (ann_text a)"
  unfolding impulse_line_def Let_def make_event_text [OF assms]
  by (intro event_line_formI strftime_HMSf_clock make_event_valid [OF assms] str_int_duration)

lemma impulse_lines_form:
  "map Inr evs = map (make_event s) as \<Longrightarrow>
     list_all2 spec_event_line_form (map impulse_line evs) (map ann_text as)"
proof (induction as arbitrary: evs)
  case Nil
  then show ?case by simp
next
  case (Cons a as)
  then obtain ev evs' where e: "evs = ev # evs'" "make_event s a = Inr ev"
    "map Inr evs' = map (make_event s) as"
    by (cases evs) auto
  show ?case using Cons.IH [OF e(3)] impulse_line_form [OF e(2)] e(1) by simp
qed

lemma excel_impulse_line_form:
  assumes "valid_time (onset_time ev)" "valid_time (end_time ev)" "is_duration_text (fmt_2f (duration ev))"
  shows "spaced_event_line_form (excel_impulse_line fmt_2f ev) (event_type ev)"
proof -
  have "spec_event_line_form
          (strftime_HMSf (onset_time ev) @ ''-'' @ strftime_HMSf (end_time ev) @ ''; ''
             @ fmt_2f (duration ev) @ '';'' @ (CHR '' '' # event_type ev)) (CHR '' '' # event_type ev)"
    by (intro event_line_formI strftime_HMSf_clock assms)
  then show ?thesis by (simp add: spaced_event_line_form_def excel_impulse_line_def)
qed

lemma excel_impulse_lines_form:
  "\<forall>ev \<in> set events. valid_time (onset_time ev) \<and> valid_time (end_time ev)
       \<and> is_duration_text (fmt_2f (duration ev)) \<Longrightarrow>
     list_all2 spaced_event_line_form (map (excel_impulse_line fmt_2f) events) (map event_type events)"
  by (induction events) (simp_all add: excel_impulse_line_form)

text \<open>Evaluation of the renderings and of the calendar on concrete values.\<close>

lemma replicate_numeral: "replicate (numeral k) x = x # replicate (pred_numeral k) x"
  by (simp add: numeral_eq_Suc)

lemmas text_eval = zero_pad_def str_nat.simps digit_char_def replicate_numeral str_int_def
  strftime_HMSf_def strftime_dmYHMS_def

lemmas calendar_eval = datetime_add_def total_us_def toordinal_def ymd2ord_def
  days_before_year_def days_before_month_def days_before_month_tab_def is_leap_def
  time_of_day_us_def ord2ymd_def datetime_sub_def int_total_seconds_def replace_microsecond0_def

lemma scenario_conversion: "convert_edf_annotations (Inr scenario_reader) = Inr scenario_output"
  by (simp add: convert_edf_annotations_def scenario_reader_def scenario_annotations_def scenario_start_def
     scenario_output_def make_event_def file_event_def flow_keywords_def lower_def lower_char_def
     write_sleep_profile_def write_arousals_def write_flow_events_def sleep_stage_line_def impulse_line_def
     strip_def isspace_def text_eval calendar_eval Let_def)

lemma rera_line: "excel_impulse_line (\<lambda>d. d) rera_arousal = ''22:00:35,000000-22:00:54,600000; 19.60; RERA''"
  by (simp add: excel_impulse_line_def rera_arousal_def text_eval)

lemma offset_conversion: "convert_edf_annotations (Inr offset_reader) = Inr offset_output"
  by (simp add: convert_edf_annotations_def offset_reader_def offset_annotations_def scenario_start_def
     offset_output_def make_event_def file_event_def flow_keywords_def lower_def lower_char_def
     write_sleep_profile_def write_arousals_def write_flow_events_def sleep_stage_line_def impulse_line_def
     strip_def isspace_def text_eval calendar_eval Let_def)

lemma offset_reader_fields:
  "getStartdatetime offset_reader = Inr scenario_start"
  "readAnnotations offset_reader = Inr offset_annotations"
  by (simp_all add: offset_reader_def)

lemma offset_first_stage:
  "datetime_add scenario_start 30700000 = Inr (scenario_start\<lparr>second := 30, microsecond := 700000\<rparr>)"
  by (simp add: scenario_start_def calendar_eval Let_def)

lemma subsecond_conversion: "convert_edf_annotations (Inr subsecond_reader) = Inr subsecond_output"
  by (simp add: convert_edf_annotations_def subsecond_reader_def subsecond_annotations_def
     subsecond_start_def scenario_start_def
     subsecond_output_def make_event_def file_event_def flow_keywords_def lower_def lower_char_def
     write_sleep_profile_def write_arousals_def write_flow_events_def sleep_stage_line_def impulse_line_def
     strip_def isspace_def text_eval calendar_eval Let_def)

lemma scenario_categorize:
  "categorize scenario_start scenario_annotations
     \<lparr>sleep_stages = [], arousals = [], flow_events = []\<rparr> = Inr scenario_categories"
  by (simp add: scenario_annotations_def scenario_start_def scenario_categories_def
      make_event_def file_event_def flow_keywords_def lower_def lower_char_def calendar_eval Let_def)

lemma scenario_reader_fields:
  "getStartdatetime scenario_reader = Inr scenario_start"
  "readAnnotations scenario_reader = Inr scenario_annotations"
  by (simp_all add: scenario_reader_def)

lemma rera_arousal_valid:
  "\<forall>ev \<in> set [rera_arousal]. valid_time (onset_time ev) \<and> valid_time (end_time ev)
       \<and> is_duration_text ((\<lambda>d. d) (duration ev))"
  by (simp add: rera_arousal_def valid_time_def is_duration_text_def)

lemma mk_datetime_fields:
  "mk_datetime y m d H M S us = Inr t \<Longrightarrow> year t = y \<and> month t = m \<and> day t = d"
  by (auto simp: mk_datetime_def split: if_splits)

lemma parse_timestamp_try_date:
  assumes "parse_timestamp_try ts st = Inr t"
  shows "year t = year st \<and> month t = month st \<and> day t = day st"
  using assms unfolding parse_timestamp_try_def Let_def
  by (auto split: sum.splits dest: mk_datetime_fields)

lemma parse_timestamp_date:
  "year (parse_timestamp ts st) = year st \<and> month (parse_timestamp ts st) = month st
     \<and> day (parse_timestamp ts st) = day st"
  using parse_timestamp_try_date [of ts st]
  by (cases "parse_timestamp_try ts st") (simp_all add: parse_timestamp_def)

lemma after_midnight_parse:
  "parse_timestamp after_midnight scenario_start = scenario_start\<lparr>hour := 0, minute := 30\<rparr>"
  by (simp add: parse_timestamp_def parse_timestamp_try_def after_midnight_def scenario_start_def
      index_def py_int_def int_space_def is_digit_def digits_value_def digit_val_def
      mk_datetime_def days_in_month_def is_leap_def Let_def)

text \<open>Evaluation of paths and of the dispatcher on concrete machines.\<close>

lemmas path_eval = Path_def str_path_def name_def stem_def stem_of_def suffix_index_def parent_def
  path_div_def with_suffix_def

lemmas dispatch_eval = convert_single_file_def convert_single_file_at_def detect_edf_format_def
  detect_edf_format_at_def detect_tries_def detect_with_pyedflib_def detect_with_header_def finish_def text_files_def
  is_emg_label_def emg_keywords_def

lemma night_edf_d_verdict:
  "detect_edf_format (night_machine 2 no_run) ''night.edf'' =
     Inr \<lparr>error = None, type = ''EDF+D'', has_annotations = True, pyedflib_compatible = True,
          excel_file = None, num_signals = Some 1, emg_channels = [(0, ''EMG Chin'')]\<rparr>"
  by (simp add: dispatch_eval path_eval night_machine_def Let_def)

text \<open>The classifier and the dispatcher, verdict by verdict.\<close>

lemma detect_missing:
  "path_exists M (str_path (Path p)) = Inr False \<Longrightarrow>
     detect_edf_format M p =
       Inr \<lparr>error = Some (''File not found: '' @ str_path (Path p)), type = ''Invalid'',
            has_annotations = False, pyedflib_compatible = False, excel_file = None,
            num_signals = None, emg_channels = []\<rparr>"
  by (simp add: detect_edf_format_def detect_edf_format_at_def)

text \<open>A raising existence check leaves the classifier as an exception.\<close>

lemma detect_exists_raises:
  assumes "path_exists M (str_path (Path p)) = Inl e"
  shows "detect_edf_format M p = Inl e"
  using assms by (simp add: detect_edf_format_def detect_edf_format_at_def)

lemma convert_missing:
  "path_exists M (str_path (Path p)) = Inr False \<Longrightarrow>
     convert_single_file M p =
       Inr (\<lparr>error = Some (''File not found: '' @ str_path (Path p)), success = False,
             converter_used = None, output_files = []\<rparr>, [])"
  by (simp add: convert_single_file_def convert_single_file_at_def detect_edf_format_at_def)

lemma commands_run_iff:
  assumes "detect_edf_format M p = Inr result" and "convert_single_file M p = Inr (out, cmds)"
  shows "cmds = [] \<longleftrightarrow>
           \<not> ((type result = ''EDF+C'' \<and> has_annotations result)
              \<or> (type result = ''Standard'' \<and> excel_file result \<noteq> None \<and> excel_file result \<noteq> Some []))"
proof -
  have d: "detect_edf_format_at M (Path p) = Inr result"
    using assms(1) by (simp add: detect_edf_format_def)
  show ?thesis
    using assms(2) unfolding convert_single_file_def convert_single_file_at_def d
    by (auto simp: Let_def split: sum.splits if_splits)
qed

lemma with_pyedflib_type:
  "detect_with_pyedflib S ep r = (None, r') \<Longrightarrow> type r' \<in> {''EDF+C'', ''EDF+D'', ''Standard''}"
  by (auto simp: detect_with_pyedflib_def Let_def split: sum.splits if_splits)

lemma with_header_type:
  "detect_with_header S ep r = (x, r') \<Longrightarrow> type r' = type r"
  by (auto simp: detect_with_header_def Let_def split: sum.splits if_splits option.splits)

lemma detect_tries_type: "type (detect_tries S ep) \<in> {''EDF+C'', ''EDF+D'', ''Standard''}"
proof -
  define r0 :: detect_result where "r0 = \<lparr>error = None, type = ''Unknown'', has_annotations = False,
                       pyedflib_compatible = False, excel_file = None, num_signals = None,
                       emg_channels = []\<rparr>"
  show ?thesis
  proof (cases "detect_with_pyedflib S ep r0")
    case (Pair x r')
    show ?thesis
    proof (cases x)
      case None
      then show ?thesis using Pair with_pyedflib_type [of S ep r0 r']
        by (simp add: detect_tries_def r0_def)
    next
      case (Some e)
      obtain y r'' where h: "detect_with_header S ep (r'\<lparr>pyedflib_compatible := False, type := ''Standard''\<rparr>) = (y, r'')"
        by (cases "detect_with_header S ep (r'\<lparr>pyedflib_compatible := False, type := ''Standard''\<rparr>)") auto
      have "type r'' = ''Standard''" using with_header_type [OF h] by simp
      then show ?thesis using Pair Some h by (cases y) (simp_all add: detect_tries_def r0_def)
    qed
  qed
qed

lemma invalid_only_missing:
  assumes "detect_edf_format M p = Inr result" and "type result = ''Invalid''"
  shows "path_exists M (str_path (Path p)) = Inr False"
proof (rule ccontr)
  assume n: "path_exists M (str_path (Path p)) \<noteq> Inr False"
  from assms(1) obtain present where ex: "path_exists M (str_path (Path p)) = Inr present"
    unfolding detect_edf_format_def detect_edf_format_at_def by (auto split: sum.splits)
  with n have pr: "present" by auto
  have "type result = type (detect_tries M (Path p))"
    using assms(1) unfolding detect_edf_format_def detect_edf_format_at_def Let_def ex
    by (auto simp: pr split: sum.splits if_splits)
  then show False using detect_tries_type [of M "Path p"] assms(2) by auto
qed

lemma plain_missing: "path_exists plain_machine (str_path (Path ''missing.edf'')) = Inr False"
  by (simp add: plain_machine_def path_eval)

lemma edf_d_not_converted:
  assumes "detect_edf_format M p = Inr result" and "type result = ''EDF+D''"
  shows "convert_single_file M p =
           Inr (\<lparr>error = Some ''EDF+D conversion not yet fully automated. Please use convert_test8_to_continuous.py manually.'',
                 success = False,
                 converter_used = Some ''convert_test8_to_continuous.py + convert_edf_annotations.py'',
                 output_files = []\<rparr>, [])"
  using assms
  by (simp add: convert_single_file_def convert_single_file_at_def detect_edf_format_def finish_def)

text \<open>The batch loop.\<close>

lemma convert_each_Inr:
  "convert_each M files b = Inr b' \<Longrightarrow>
     map fst (results b') = map fst (results b) @ map str_path files
     \<and> total b' = total b
     \<and> success_count b' + failed_count b' = success_count b + failed_count b + length files
     \<and> failed_count b \<le> failed_count b'
     \<and> (failed_count b' = failed_count b \<longleftrightarrow> list_all (reports_success M) files)"
proof (induction files arbitrary: b)
  case Nil
  then show ?case by simp
next
  case (Cons f files)
  from Cons.prems obtain result cmds where
    c: "convert_single_file_at M f = Inr (result, cmds)"
    by (auto split: sum.splits)
  show ?case
  proof (cases "success result")
    case True
    with Cons.prems c have r: "convert_each M files
        (b\<lparr>results := results b @ [(str_path f, result)], success_count := success_count b + 1\<rparr>) = Inr b'"
      by simp
    from Cons.IH [OF r] True c show ?thesis by (simp add: reports_success_def)
  next
    case False
    with Cons.prems c have r: "convert_each M files
        (b\<lparr>results := results b @ [(str_path f, result)], failed_count := failed_count b + 1\<rparr>) = Inr b'"
      by simp
    from Cons.IH [OF r] False c show ?thesis by (auto simp: reports_success_def)
  qed
qed

lemma convert_each_Inl:
  "convert_each M files b = Inl e \<Longrightarrow> \<not> list_all (reports_success M) files"
proof (induction files arbitrary: b)
  case Nil
  then show ?case by simp
next
  case (Cons f files)
  show ?case
  proof (cases "convert_single_file_at M f")
    case (Inl e')
    then show ?thesis by (simp add: reports_success_def)
  next
    case (Inr rc)
    obtain result cmds where rc: "rc = (result, cmds)" by (cases rc)
    from Cons.prems Inr rc obtain b1 where "convert_each M files b1 = Inl e"
      by (auto split: if_splits)
    from Cons.IH [OF this] show ?thesis by simp
  qed
qed

lemma join_snoc: "join sep (xs @ [x]) = (if xs = [] then x else join sep xs @ sep @ x)"
  by (induction sep xs rule: join.induct) simp_all

lemma split_on_no_sep: "sep \<notin> set s \<Longrightarrow> split_on sep s = [s]"
  by (induction s) auto

lemma Path_of_name:
  assumes "CHR ''/'' \<notin> set nm" and "nm \<noteq> []" and "nm \<noteq> ''.''"
  shows "Path nm = \<lparr>root = [], tail = [nm]\<rparr>"
proof -
  have "\<not> prefix ''/'' nm" using assms(1) by (cases nm) auto
  moreover have "\<not> prefix ''//'' nm" using assms(1) by (cases nm) auto
  ultimately show ?thesis using assms by (simp add: Path_def split_on_no_sep)
qed

lemma recording_name:
  assumes "suffix ''.EDF'' nm \<or> suffix ''.edf'' nm"
  shows "nm \<noteq> []" and "nm \<noteq> ''.''"
  using assms by (auto simp: suffix_def)

lemma path_div_name:
  assumes "CHR ''/'' \<notin> set nm" and "suffix ''.EDF'' nm \<or> suffix ''.edf'' nm"
  shows "path_div d nm = d\<lparr>tail := tail d @ [nm]\<rparr>"
  using Path_of_name [OF assms(1) recording_name [OF assms(2)]] by (simp add: path_div_def)

lemma str_path_snoc_inj:
  assumes "str_path (d\<lparr>tail := tail d @ [a]\<rparr>) = str_path (d\<lparr>tail := tail d @ [b]\<rparr>)"
  shows "a = b"
  using assms by (simp add: str_path_def join_snoc split: if_splits)

lemma upper_suffix_lower: "suffix ''.EDF'' nm \<Longrightarrow> suffix ''.edf'' (lower nm)"
  by (auto simp: suffix_def lower_def lower_char_def)

lemma exact_suffix_lower: "suffix ''.edf'' nm \<Longrightarrow> suffix ''.edf'' (lower nm)"
  by (auto simp: suffix_def lower_def lower_char_def)

lemma glob_names_distinct:
  assumes "distinct (map node_name entries)"
  shows "distinct (glob_suffix ''.EDF'' entries @ glob_suffix ''.edf'' entries)"
proof -
  have "\<not> (suffix ''.EDF'' nm \<and> suffix ''.edf'' nm)" for nm
    by (auto simp: suffix_def)
  then show ?thesis using assms by (auto simp: glob_suffix_def)
qed

lemma edf_files_listing:
  assumes "is_listing entries"
  shows "distinct (edf_files d entries)" and "distinct (map str_path (edf_files d entries))"
    and "\<forall>nm \<in> set (map node_name entries). suffix ''.EDF'' nm \<or> suffix ''.edf'' nm
           \<longrightarrow> path_div d nm \<in> set (edf_files d entries)"
    and "\<forall>f \<in> set (edf_files d entries). \<exists>nm \<in> set (map node_name entries).
           f = path_div d nm \<and> suffix ''.edf'' (lower nm)"
proof -
  let ?names = "glob_suffix ''.EDF'' entries @ glob_suffix ''.edf'' entries"
  have dn: "distinct ?names" using assms glob_names_distinct by (simp add: is_listing_def)
  have mem: "nm \<in> set ?names \<longleftrightarrow>
      nm \<in> set (map node_name entries) \<and> (suffix ''.EDF'' nm \<or> suffix ''.edf'' nm)" for nm
    by (auto simp: glob_suffix_def)
  have ns: "CHR ''/'' \<notin> set nm" if "nm \<in> set (map node_name entries)" for nm
    using that assms by (auto simp: is_listing_def list_all_iff)
  have pd: "path_div d nm = d\<lparr>tail := tail d @ [nm]\<rparr>" if "nm \<in> set ?names" for nm
    using that mem [of nm] ns [of nm] path_div_name [of nm d] by blast
  have ef: "edf_files d entries = map (\<lambda>nm. d\<lparr>tail := tail d @ [nm]\<rparr>) ?names"
    unfolding edf_files_def using pd by (intro map_cong) auto
  have sp: "map str_path (edf_files d entries) = map (\<lambda>nm. str_path (d\<lparr>tail := tail d @ [nm]\<rparr>)) ?names"
    by (simp add: ef)
  have "inj (\<lambda>nm. str_path (d\<lparr>tail := tail d @ [nm]\<rparr>))"
    by (rule injI) (rule str_path_snoc_inj)
  then have io: "inj_on (\<lambda>nm. str_path (d\<lparr>tail := tail d @ [nm]\<rparr>)) (set ?names)"
    by (rule inj_on_subset) simp
  show d2: "distinct (map str_path (edf_files d entries))"
    unfolding sp distinct_map using dn io by (rule conjI)
  from d2 show "distinct (edf_files d entries)" by (simp add: distinct_map)
  show "\<forall>nm \<in> set (map node_name entries). suffix ''.EDF'' nm \<or> suffix ''.edf'' nm
           \<longrightarrow> path_div d nm \<in> set (edf_files d entries)"
    using mem by (auto simp: edf_files_def)
  show "\<forall>f \<in> set (edf_files d entries). \<exists>nm \<in> set (map node_name entries).
           f = path_div d nm \<and> suffix ''.edf'' (lower nm)"
  proof
    fix f assume "f \<in> set (edf_files d entries)"
    then obtain nm where nm: "nm \<in> set ?names" and f: "f = path_div d nm"
      by (auto simp: edf_files_def)
    from nm mem [of nm] have "nm \<in> set (map node_name entries)"
      and "suffix ''.EDF'' nm \<or> suffix ''.edf'' nm" by blast+
    then show "\<exists>nm \<in> set (map node_name entries). f = path_div d nm \<and> suffix ''.edf'' (lower nm)"
      using f upper_suffix_lower exact_suffix_lower by blast
  qed
qed

lemma night_listing: "is_listing night_entries"
  by (simp add: is_listing_def night_entries_def)

lemma main_directory_zero:
  "main_directory M d (Dir n entries) = 0
     \<longleftrightarrow> edf_files d entries \<noteq> [] \<and> list_all (reports_success M) (edf_files d entries)"
proof (cases "edf_files d entries = []")
  case True
  then show ?thesis by (simp add: main_directory_def convert_directory_def)
next
  case False
  let ?b0 = "\<lparr>total = length (edf_files d entries), success_count = 0, failed_count = 0, results = []\<rparr>"
  show ?thesis
  proof (cases "convert_each M (edf_files d entries) ?b0")
    case (Inl e)
    then show ?thesis using False convert_each_Inl [OF Inl]
      by (simp add: main_directory_def convert_directory_def)
  next
    case (Inr b')
    then show ?thesis using False convert_each_Inr [OF Inr]
      by (simp add: main_directory_def convert_directory_def)
  qed
qed

lemma convert_directory_Some:
  assumes "convert_directory M d (Dir n entries) = Inr (Some b)"
  shows "map fst (results b) = map str_path (edf_files d entries)
       \<and> total b = length (edf_files d entries)
       \<and> success_count b + failed_count b = total b"
proof -
  from assms have "convert_each M (edf_files d entries)
      \<lparr>total = length (edf_files d entries), success_count = 0, failed_count = 0, results = []\<rparr> = Inr b"
    by (auto simp: convert_directory_def Let_def split: if_splits sum.splits)
  from convert_each_Inr [OF this] show ?thesis by simp
qed

lemma night_files: "edf_files (Path ''.'') night_entries = [Path ''night.edf'']"
  by (simp add: edf_files_def glob_suffix_def night_entries_def path_eval suffix_def)

lemma night_ok:
  "convert_single_file_at (night_machine 1 ok_run) (Path ''night.edf'')
     = Inr (\<lparr>error = None, success = True, converter_used = Some ''convert_edf_annotations.py'',
              output_files = [''night Sleep profile.txt'', ''night Classification Arousals.txt'',
                              ''night Flow Events.txt'']\<rparr>,
            [[''python3'', ''code/convert_edf_annotations.py'', ''night.edf'']])"
  by (simp add: dispatch_eval path_eval night_machine_def ok_run_def Let_def)

lemma night_batch:
  "convert_directory (night_machine 1 ok_run) (Path ''.'') (Dir ''.'' night_entries)
     = Inr (Some \<lparr>total = 1, success_count = 1, failed_count = 0,
                  results = [(''night.edf'',
                    \<lparr>error = None, success = True, converter_used = Some ''convert_edf_annotations.py'',
                     output_files = [''night Sleep profile.txt'', ''night Classification Arousals.txt'',
                                     ''night Flow Events.txt'']\<rparr>)]\<rparr>)"
  unfolding convert_directory_def fs_node.case Let_def night_files
  by (simp add: night_ok) (simp add: path_eval)

lemma night_exit:
  "main_directory (night_machine 1 ok_run) (Path ''.'') (Dir ''.'' night_entries) = 0"
  by (simp add: main_directory_def night_batch)

lemma unverified_steps_fields:
  "input_exists unverified_steps" "steps_1_to_3 unverified_steps = None"
  "step_4_write unverified_steps = None"
  "step_5_verify unverified_steps = Some (OSError ''the file is not EDF(+) or BDF(+) compliant'')"
  by (simp_all add: unverified_steps_def)

text \<open>
  The classifier returns a result for every path whose name is not empty, where the
  existence checks raise nothing.
\<close>

lemma detect_edf_format_named:
  assumes "name (Path p) \<noteq> []" and "\<And>q. \<exists>b. path_exists S q = Inr b"
  shows "\<exists>result. detect_edf_format S p = Inr result"
proof -
  obtain b0 where b0: "path_exists S (str_path (Path p)) = Inr b0" using assms(2) by blast
  obtain x1 where x1: "with_suffix (Path p) ''.xlsx'' = Inr x1"
    using assms(1) by (simp add: with_suffix_def)
  obtain x2 where x2: "with_suffix (Path p) ''.XLSX'' = Inr x2"
    using assms(1) by (simp add: with_suffix_def)
  obtain b1 where b1: "path_exists S (str_path x1) = Inr b1" using assms(2) by blast
  obtain b2 where b2: "path_exists S (str_path x2) = Inr b2" using assms(2) by blast
  show ?thesis
    by (simp add: detect_edf_format_def detect_edf_format_at_def Let_def b0 x1 x2 b1 b2)
qed

text \<open>The extractor's script ends with status 0 whatever its function met.\<close>

lemma extractor_script_status: "returncode (convert_edf_annotations_main opened) = 0"
  by (simp add: convert_edf_annotations_main_def split: sum.splits)


section \<open>Claims\<close>

text \<open>
  C1 (as amended). When the embedded-annotation extractor completes, and the annotation
  list holds an event whose label contains "Sleep stage", the effective start time is the
  timestamp of the first such event (header start plus its onset) with the microseconds
  set to zero and every other field kept, wherever the other annotations stand; with no
  such event it is the header start time with the microseconds set to zero. Its
  microseconds are zero in every case, and each of the three files carries it as "Start
  Time".
\<close>

theorem effective_start_time:
  assumes "convert_edf_annotations (Inr f) = Inr out"
    and "getStartdatetime f = Inr start" and "readAnnotations f = Inr anns"
  shows "(case List.find (\<lambda>a. str_contains ''Sleep stage'' (ann_text a)) anns of
            Some a \<Rightarrow> (\<exists>t. datetime_add start (onset_td a) = Inr t
                           \<and> effective_start out = t\<lparr>microsecond := 0\<rparr>)
          | None \<Rightarrow> effective_start out = start\<lparr>microsecond := 0\<rparr>)
       \<and> microsecond (effective_start out) = 0
       \<and> sleep_profile_txt out ! 0 = ''Start Time: '' @ strftime_dmYHMS (effective_start out)
       \<and> arousals_txt out ! 1 = ''Start Time: '' @ strftime_dmYHMS (effective_start out)
       \<and> flow_events_txt out ! 1 = ''Start Time: '' @ strftime_dmYHMS (effective_start out)"
proof -
  from assms(1) obtain start' anns' cats where
    s: "getStartdatetime f = Inr start'" and a: "readAnnotations f = Inr anns'"
    and c: "categorize start' anns' \<lparr>sleep_stages = [], arousals = [], flow_events = []\<rparr> = Inr cats"
    and e: "effective_start out = replace_microsecond0 (case sleep_stages cats of ev # _ \<Rightarrow> onset_dt ev | [] \<Rightarrow> start')"
    and f1: "sleep_profile_txt out = write_sleep_profile (effective_start out) (sleep_stages cats)"
    and f2: "arousals_txt out = write_arousals (effective_start out) (arousals cats)"
    and f3: "flow_events_txt out = write_flow_events (effective_start out) (flow_events cats)"
    by (rule convert_edf_annotations_Inr)
  have [simp]: "start' = start" "anns' = anns" using s a assms(2,3) by simp_all
  let ?P = "\<lambda>a. str_contains ''Sleep stage'' (ann_text a)"
  have ss: "map Inr (sleep_stages cats) = map (make_event start) (filter ?P anns)"
    using categorize_lists [OF c] by (simp add: of_kind_sleep [abs_def])
  have files: "sleep_profile_txt out ! 0 = ''Start Time: '' @ strftime_dmYHMS (effective_start out)"
    "arousals_txt out ! 1 = ''Start Time: '' @ strftime_dmYHMS (effective_start out)"
    "flow_events_txt out ! 1 = ''Start Time: '' @ strftime_dmYHMS (effective_start out)"
    by (simp_all add: f1 f2 f3 write_sleep_profile_def write_arousals_def write_flow_events_def)
  have zero: "microsecond (effective_start out) = 0"
    by (simp add: e replace_microsecond0_def)
  have anchor: "(case List.find ?P anns of
            Some a \<Rightarrow> (\<exists>t. datetime_add start (onset_td a) = Inr t
                           \<and> effective_start out = t\<lparr>microsecond := 0\<rparr>)
          | None \<Rightarrow> effective_start out = start\<lparr>microsecond := 0\<rparr>)"
  proof (cases "filter ?P anns")
    case Nil
    then have "sleep_stages cats = []" using ss by simp
    then have "effective_start out = start\<lparr>microsecond := 0\<rparr>"
      using e by (simp add: replace_microsecond0_def)
    then show ?thesis using Nil by (simp add: find_filter_conv)
  next
    case (Cons a rest)
    then obtain ev evs where evs: "sleep_stages cats = ev # evs" and ev: "make_event start a = Inr ev"
      using ss by (cases "sleep_stages cats") auto
    from ev obtain t where t: "datetime_add start (onset_td a) = Inr t"
      and o: "onset_dt ev = replace_microsecond0 t"
      by (auto simp: make_event_def split: sum.splits)
    have "effective_start out = t\<lparr>microsecond := 0\<rparr>"
      using e evs o by (simp add: replace_microsecond0_def)
    then show ?thesis using Cons t by (simp add: find_filter_conv)
  qed
  show ?thesis using anchor zero files by simp
qed

theorem effective_start_time_witness:
  "convert_edf_annotations (Inr offset_reader) = Inr offset_output
   \<and> getStartdatetime offset_reader = Inr scenario_start
   \<and> readAnnotations offset_reader = Inr offset_annotations
   \<and> List.find (\<lambda>a. str_contains ''Sleep stage'' (ann_text a)) offset_annotations
       = Some \<lparr>onset_td = 30700000, duration_td = 0, ann_text = ''Sleep stage W''\<rparr>
   \<and> datetime_add scenario_start 30700000
       = Inr (scenario_start\<lparr>second := 30, microsecond := 700000\<rparr>)
   \<and> effective_start offset_output = scenario_start\<lparr>second := 30, microsecond := 0\<rparr>
   \<and> microsecond (effective_start offset_output) = 0
   \<and> sleep_profile_txt offset_output ! 0 = ''Start Time: 01.01.2024 22:00:30''
   \<and> arousals_txt offset_output ! 1 = ''Start Time: 01.01.2024 22:00:30''
   \<and> flow_events_txt offset_output ! 1 = ''Start Time: 01.01.2024 22:00:30''"
proof -
  note h = offset_conversion offset_reader_fields
  have fd: "List.find (\<lambda>a. str_contains ''Sleep stage'' (ann_text a)) offset_annotations
       = Some \<lparr>onset_td = 30700000, duration_td = 0, ann_text = ''Sleep stage W''\<rparr>"
    by (simp add: offset_annotations_def)
  have st: "strftime_dmYHMS (scenario_start\<lparr>second := 30, microsecond := 0\<rparr>) = ''01.01.2024 22:00:30''"
    by (simp add: scenario_start_def text_eval)
  from effective_start_time [OF h] have
    e: "effective_start offset_output = scenario_start\<lparr>second := 30, microsecond := 0\<rparr>"
    and z: "microsecond (effective_start offset_output) = 0"
    and f: "sleep_profile_txt offset_output ! 0 = ''Start Time: '' @ strftime_dmYHMS (effective_start offset_output)"
      "arousals_txt offset_output ! 1 = ''Start Time: '' @ strftime_dmYHMS (effective_start offset_output)"
      "flow_events_txt offset_output ! 1 = ''Start Time: '' @ strftime_dmYHMS (effective_start offset_output)"
    by (simp_all add: fd offset_first_stage)
  show ?thesis using h fd offset_first_stage e z f by (simp add: st)
qed

text \<open>
  C1 as stated fails in its second part: the recording whose header start is
  \<open>22:00:00.05\<close> holds no sleep stage, and its effective start time is \<open>22:00:00\<close>, not
  the header start time.
\<close>

theorem header_subsecond_counterexample:
  "convert_edf_annotations (Inr subsecond_reader) = Inr subsecond_output
   \<and> getStartdatetime subsecond_reader = Inr subsecond_start
   \<and> readAnnotations subsecond_reader = Inr subsecond_annotations
   \<and> map ann_text subsecond_annotations = [''EEG arousal'']
   \<and> \<not> str_contains ''Sleep stage'' ''EEG arousal''
   \<and> effective_start subsecond_output \<noteq> subsecond_start"
proof -
  have 1: "getStartdatetime subsecond_reader = Inr subsecond_start"
    "readAnnotations subsecond_reader = Inr subsecond_annotations"
    by (simp_all add: subsecond_reader_def)
  have 2: "map ann_text subsecond_annotations = [''EEG arousal'']"
    by (simp add: subsecond_annotations_def)
  have 3: "\<not> str_contains ''Sleep stage'' ''EEG arousal''" by simp
  have 4: "effective_start subsecond_output \<noteq> subsecond_start"
    by (simp add: subsecond_output_def subsecond_start_def scenario_start_def)
  show ?thesis using subsecond_conversion 1 2 3 4 by simp
qed

text \<open>
  C2 (as amended). The embedded-annotation extractor writes every event line of its
  Arousals and Flow Events files as \<open>HH:MM:SS,ffffff-HH:MM:SS,ffffff; <duration>;<label>\<close>:
  no blank around the dash, none between the second semicolon and the label. The
  spreadsheet extractor writes the same fields with one blank between the second semicolon
  and the label. The scenario yields the Sleep-profile lines \<open>22:00:00,000000; W\<close> and
  \<open>22:00:30,000000; REM\<close> and the Arousals line
  \<open>22:00:35,000000-22:00:47,000000; 12;EEG arousal\<close>.
\<close>

theorem event_line_format:
  assumes "convert_edf_annotations (Inr f) = Inr out" and "readAnnotations f = Inr anns"
    and "\<forall>ev \<in> set events. valid_time (onset_time ev) \<and> valid_time (end_time ev)
           \<and> is_duration_text (fmt_2f (duration ev))"
  shows "list_all2 spec_event_line_form (drop 5 (arousals_txt out))
           (map ann_text (filter (of_kind (Some Arousal)) anns))
       \<and> list_all2 spec_event_line_form (drop 5 (flow_events_txt out))
           (map ann_text (filter (of_kind (Some FlowEvent)) anns))
       \<and> list_all2 spaced_event_line_form (drop 5 (excel_write_arousals fmt_2f start_time events))
           (map event_type events)
       \<and> list_all2 spaced_event_line_form (drop 5 (excel_write_flow_events fmt_2f start_time events))
           (map event_type events)
       \<and> (\<exists>o1. convert_edf_annotations (Inr scenario_reader) = Inr o1
             \<and> drop 3 (sleep_profile_txt o1) = [''22:00:00,000000; W'', ''22:00:30,000000; REM'']
             \<and> drop 5 (arousals_txt o1) = [''22:00:35,000000-22:00:47,000000; 12;EEG arousal''])"
proof -
  from assms(1) obtain start' anns' cats where
    a: "readAnnotations f = Inr anns'"
    and c: "categorize start' anns' \<lparr>sleep_stages = [], arousals = [], flow_events = []\<rparr> = Inr cats"
    and f2: "arousals_txt out = write_arousals (effective_start out) (arousals cats)"
    and f3: "flow_events_txt out = write_flow_events (effective_start out) (flow_events cats)"
    by (rule convert_edf_annotations_Inr)
  have [simp]: "anns' = anns" using a assms(2) by simp
  note l = categorize_lists [OF c]
  have ar: "map Inr (arousals cats) = map (make_event start') (filter (of_kind (Some Arousal)) anns)"
    using l by simp
  have fl: "map Inr (flow_events cats) = map (make_event start') (filter (of_kind (Some FlowEvent)) anns)"
    using l by simp
  have 1: "list_all2 spec_event_line_form (drop 5 (arousals_txt out))
           (map ann_text (filter (of_kind (Some Arousal)) anns))"
    using impulse_lines_form [OF ar] by (simp add: f2 write_arousals_def)
  have 2: "list_all2 spec_event_line_form (drop 5 (flow_events_txt out))
           (map ann_text (filter (of_kind (Some FlowEvent)) anns))"
    using impulse_lines_form [OF fl] by (simp add: f3 write_flow_events_def)
  have 3: "list_all2 spaced_event_line_form (drop 5 (excel_write_arousals fmt_2f start_time events))
           (map event_type events)"
    using excel_impulse_lines_form [OF assms(3)] by (simp add: excel_write_arousals_def)
  have 4: "list_all2 spaced_event_line_form (drop 5 (excel_write_flow_events fmt_2f start_time events))
           (map event_type events)"
    using excel_impulse_lines_form [OF assms(3)] by (simp add: excel_write_flow_events_def)
  have 5: "\<exists>o1. convert_edf_annotations (Inr scenario_reader) = Inr o1
             \<and> drop 3 (sleep_profile_txt o1) = [''22:00:00,000000; W'', ''22:00:30,000000; REM'']
             \<and> drop 5 (arousals_txt o1) = [''22:00:35,000000-22:00:47,000000; 12;EEG arousal'']"
    using scenario_conversion by (simp add: scenario_output_def)
  show ?thesis using 1 2 3 4 5 by blast
qed

theorem event_line_format_witness:
  "convert_edf_annotations (Inr scenario_reader) = Inr scenario_output
   \<and> readAnnotations scenario_reader = Inr scenario_annotations
   \<and> (valid_time (onset_time rera_arousal) \<and> valid_time (end_time rera_arousal)
           \<and> is_duration_text (duration rera_arousal))
   \<and> (list_all2 spec_event_line_form (drop 5 (arousals_txt scenario_output))
           (map ann_text (filter (of_kind (Some Arousal)) scenario_annotations))
       \<and> list_all2 spec_event_line_form (drop 5 (flow_events_txt scenario_output))
           (map ann_text (filter (of_kind (Some FlowEvent)) scenario_annotations))
       \<and> list_all2 spaced_event_line_form
           (drop 5 (excel_write_arousals (\<lambda>d. d) scenario_start [rera_arousal]))
           (map event_type [rera_arousal])
       \<and> list_all2 spaced_event_line_form
           (drop 5 (excel_write_flow_events (\<lambda>d. d) scenario_start [rera_arousal]))
           (map event_type [rera_arousal])
       \<and> (\<exists>o1. convert_edf_annotations (Inr scenario_reader) = Inr o1
             \<and> drop 3 (sleep_profile_txt o1) = [''22:00:00,000000; W'', ''22:00:30,000000; REM'']
             \<and> drop 5 (arousals_txt o1) = [''22:00:35,000000-22:00:47,000000; 12;EEG arousal'']))"
proof -
  note h = scenario_conversion scenario_reader_fields(2) rera_arousal_valid
  have v: "valid_time (onset_time rera_arousal) \<and> valid_time (end_time rera_arousal)
           \<and> is_duration_text (duration rera_arousal)"
    using h(3) by simp
  show ?thesis
    by (rule conjI [OF h(1) conjI [OF h(2) conjI [OF v event_line_format [OF h, of scenario_start]]]])
qed

text \<open>
  C2 as stated fails for the spreadsheet extractor: the line it writes for the arousal
  \<open>RERA\<close> is \<open>22:00:35,000000-22:00:54,600000; 19.60; RERA\<close>, with a blank after the
  second semicolon.
\<close>

theorem excel_event_line_counterexample:
  "\<not> list_all2 spec_event_line_form
       (drop 5 (excel_write_arousals (\<lambda>d. d) scenario_start [rera_arousal])) [event_type rera_arousal]"
proof -
  have ty: "event_type rera_arousal = ''RERA''" by (simp add: rera_arousal_def)
  show ?thesis
    by (simp add: excel_write_arousals_def rera_line ty spec_event_line_form_def is_duration_text_def)
qed

text \<open>
  C3. The categorization of the embedded-annotation extractor is a partition of the
  annotation list: the three lists it builds are, in order, the events of the annotations
  whose label is of the kind SleepStage, Arousal and FlowEvent by the ordered rules, every
  other annotation is discarded, and the four groups together count every annotation once.
\<close>

theorem categorization_partition:
  assumes "categorize s anns \<lparr>sleep_stages = [], arousals = [], flow_events = []\<rparr> = Inr cats"
  shows "map Inr (sleep_stages cats) = map (make_event s) (filter (of_kind (Some SleepStage)) anns)
       \<and> map Inr (arousals cats) = map (make_event s) (filter (of_kind (Some Arousal)) anns)
       \<and> map Inr (flow_events cats) = map (make_event s) (filter (of_kind (Some FlowEvent)) anns)
       \<and> length (sleep_stages cats) + length (arousals cats) + length (flow_events cats)
           + length (filter (of_kind None) anns) = length anns"
proof -
  note l = categorize_lists [OF assms]
  have a: "map Inr (sleep_stages cats) = map (make_event s) (filter (of_kind (Some SleepStage)) anns)"
    using l by simp
  have b: "map Inr (arousals cats) = map (make_event s) (filter (of_kind (Some Arousal)) anns)"
    using l by simp
  have c: "map Inr (flow_events cats) = map (make_event s) (filter (of_kind (Some FlowEvent)) anns)"
    using l by simp
  have "length (sleep_stages cats) = length (filter (of_kind (Some SleepStage)) anns)"
    using arg_cong [OF a, of length] by simp
  moreover have "length (arousals cats) = length (filter (of_kind (Some Arousal)) anns)"
    using arg_cong [OF b, of length] by simp
  moreover have "length (flow_events cats) = length (filter (of_kind (Some FlowEvent)) anns)"
    using arg_cong [OF c, of length] by simp
  ultimately show ?thesis using a b c filter_kinds_length [of anns] by simp
qed

theorem categorization_partition_witness:
  "categorize scenario_start scenario_annotations
       \<lparr>sleep_stages = [], arousals = [], flow_events = []\<rparr> = Inr scenario_categories
   \<and> (map Inr (sleep_stages scenario_categories)
         = map (make_event scenario_start) (filter (of_kind (Some SleepStage)) scenario_annotations)
       \<and> map Inr (arousals scenario_categories)
         = map (make_event scenario_start) (filter (of_kind (Some Arousal)) scenario_annotations)
       \<and> map Inr (flow_events scenario_categories)
         = map (make_event scenario_start) (filter (of_kind (Some FlowEvent)) scenario_annotations)
       \<and> length (sleep_stages scenario_categories) + length (arousals scenario_categories)
           + length (flow_events scenario_categories)
           + length (filter (of_kind None) scenario_annotations) = length scenario_annotations)"
proof -
  note h = scenario_categorize
  show ?thesis by (rule conjI [OF h categorization_partition [OF h]])
qed

text \<open>
  C4. The specification has the dispatcher run the header-normalizing converter and then
  the embedded-annotation extractor for a file the classifier reports as EDF+D, so that
  the three text files are produced; the module's own description lists EDF+D among the
  supported formats. The code does not do that: on a machine whose classifier reports
  \<open>night.edf\<close> as EDF+D and on which every command would end with status 0, the
  dispatcher runs no command, lists no output file and reports a failure that says the
  conversion is not yet automated.
\<close>

theorem edf_d_runs_no_converter:
  "detect_edf_format (night_machine 2 ok_run) ''night.edf'' =
     Inr \<lparr>error = None, type = ''EDF+D'', has_annotations = True, pyedflib_compatible = True,
          excel_file = None, num_signals = Some 1, emg_channels = [(0, ''EMG Chin'')]\<rparr>
   \<and> convert_single_file (night_machine 2 ok_run) ''night.edf'' =
     Inr (\<lparr>error = Some ''EDF+D conversion not yet fully automated. Please use convert_test8_to_continuous.py manually.'',
           success = False,
           converter_used = Some ''convert_test8_to_continuous.py + convert_edf_annotations.py'',
           output_files = []\<rparr>, [])"
  by (simp add: dispatch_eval path_eval night_machine_def Let_def)

text \<open>
  C5. When the header-normalizing converter has written and closed the new recording and
  the re-opening with the structured reader raises, the outcome is a failure: success is
  false, the error is "Verification failed: " with the exception's text, and the output
  path names the recording, which stays written. The verification is not optional: once
  the recording is written, the outcome is a success exactly when the verification raised
  nothing.
\<close>

theorem verification_failure_is_failure:
  assumes "input_exists W" and "steps_1_to_3 W = None" and "step_4_write W = None"
  shows "(step_5_verify W = Some e \<longrightarrow>
            convert_standard_to_edfplus W input_arg output_arg
              = (\<lparr>error = Some (''Verification failed: '' @ str_exn e), success = False,
                   output_path = Some (str_path (output_edf_path (Path input_arg) output_arg))\<rparr>,
                 [str_path (output_edf_path (Path input_arg) output_arg)]))
       \<and> success (fst (convert_standard_to_edfplus W input_arg output_arg)) = (step_5_verify W = None)
       \<and> snd (convert_standard_to_edfplus W input_arg output_arg)
             = [str_path (output_edf_path (Path input_arg) output_arg)]"
  using assms by (auto simp: convert_standard_to_edfplus_def Let_def split: option.splits)

theorem verification_failure_is_failure_witness:
  "input_exists unverified_steps \<and> steps_1_to_3 unverified_steps = None
   \<and> step_4_write unverified_steps = None
   \<and> step_5_verify unverified_steps = Some (OSError ''the file is not EDF(+) or BDF(+) compliant'')
   \<and> convert_standard_to_edfplus unverified_steps ''a/b.EDF'' None
       = (\<lparr>error = Some ''Verification failed: the file is not EDF(+) or BDF(+) compliant'',
            success = False, output_path = Some ''a/b_edfplus.edf''\<rparr>, [''a/b_edfplus.edf''])"
proof -
  note h = unverified_steps_fields
  have p: "str_path (output_edf_path (Path ''a/b.EDF'') None) = ''a/b_edfplus.edf''"
    by (simp add: output_edf_path_def path_eval)
  from verification_failure_is_failure [OF h(1,2,3), of "OSError ''the file is not EDF(+) or BDF(+) compliant''" "''a/b.EDF''" None]
  show ?thesis using h by (simp add: p)
qed

text \<open>
  C6 (as amended). For every input path that the existence check reports as absent, the
  classifier returns the verdict Invalid with the message "File not found: ...", and the
  dispatcher returns a failed outcome with that message and runs no command; the
  classifier returns Invalid for no other path. Invalid is not the only verdict with no
  conversion attempt: leaving EDF+D aside, a command is run exactly when the verdict is
  EDF+C with annotations or Standard with a companion spreadsheet, so that for EDF+C
  without annotations and for Standard without a spreadsheet none is run either. Nothing
  is said of a path whose existence check itself raises.
\<close>

theorem missing_file_invalid:
  "(path_exists M (str_path (Path p)) = Inr False \<longrightarrow>
      detect_edf_format M p =
        Inr \<lparr>error = Some (''File not found: '' @ str_path (Path p)), type = ''Invalid'',
             has_annotations = False, pyedflib_compatible = False, excel_file = None,
             num_signals = None, emg_channels = []\<rparr>
      \<and> convert_single_file M p =
        Inr (\<lparr>error = Some (''File not found: '' @ str_path (Path p)), success = False,
              converter_used = None, output_files = []\<rparr>, []))
   \<and> (detect_edf_format M p = Inr result \<and> type result = ''Invalid''
        \<longrightarrow> path_exists M (str_path (Path p)) = Inr False)
   \<and> (detect_edf_format M p = Inr result \<and> convert_single_file M p = Inr (out, cmds)
        \<and> type result \<noteq> ''EDF+D'' \<longrightarrow>
        (cmds = [] \<longleftrightarrow>
           \<not> ((type result = ''EDF+C'' \<and> has_annotations result)
              \<or> (type result = ''Standard'' \<and> excel_file result \<noteq> None \<and> excel_file result \<noteq> Some []))))"
  using detect_missing [of M p] convert_missing [of M p] invalid_only_missing [of M p result]
    commands_run_iff [of M p result out cmds]
  by blast

theorem missing_file_invalid_witness:
  "path_exists plain_machine (str_path (Path ''missing.edf'')) = Inr False
   \<and> detect_edf_format plain_machine ''missing.edf'' =
        Inr \<lparr>error = Some (''File not found: '' @ str_path (Path ''missing.edf'')), type = ''Invalid'',
             has_annotations = False, pyedflib_compatible = False, excel_file = None,
             num_signals = None, emg_channels = []\<rparr>
   \<and> convert_single_file plain_machine ''missing.edf'' =
        Inr (\<lparr>error = Some (''File not found: '' @ str_path (Path ''missing.edf'')), success = False,
              converter_used = None, output_files = []\<rparr>, [])"
  using missing_file_invalid [of plain_machine "''missing.edf''"] plain_missing by blast

text \<open>
  C6 as stated fails in its last part: the recording \<open>plain.edf\<close> exists, its verdict is
  Standard, not Invalid, and the dispatcher runs no command for it.
\<close>

theorem no_converter_counterexample:
  "detect_edf_format plain_machine ''plain.edf'' =
     Inr \<lparr>error = None, type = ''Standard'', has_annotations = False, pyedflib_compatible = False,
          excel_file = None, num_signals = None, emg_channels = []\<rparr>
   \<and> convert_single_file plain_machine ''plain.edf'' =
     Inr (\<lparr>error = Some ''No suitable converter found for this EDF format'', success = False,
           converter_used = None, output_files = []\<rparr>, [])"
  by (simp add: dispatch_eval path_eval plain_machine_def Let_def read_n_def decode_ascii_ignore_def
      strip_def isdigit_def)

text \<open>
  C7. The specification has a failure while the embedded-annotation extractor reads a
  recording reach the dispatcher as a failed outcome. The code does not do that: the
  extractor catches the exception, prints it and its script ends with status 0, which the
  dispatcher takes for a success. Here the recording's only annotation lies beyond the
  year 9999, the extractor fails with \<open>OverflowError\<close> and writes nothing, and the
  dispatcher reports success with the three files as output.
\<close>

theorem extractor_failure_reported_as_success:
  "convert_edf_annotations (Inr late_reader) = Inl (OverflowError ''date value out of range'')
   \<and> convert_single_file
        (night_machine 1 late_run) ''night.edf''
       = Inr (\<lparr>error = None, success = True, converter_used = Some ''convert_edf_annotations.py'',
               output_files = [''night Sleep profile.txt'', ''night Classification Arousals.txt'',
                               ''night Flow Events.txt'']\<rparr>,
              [[''python3'', ''code/convert_edf_annotations.py'', ''night.edf'']])"
proof -
  have 1: "convert_edf_annotations (Inr late_reader) = Inl (OverflowError ''date value out of range'')"
    by (simp add: convert_edf_annotations_def late_reader_def make_event_def calendar_eval Let_def)
  have 2: "convert_single_file
        (night_machine 1 late_run) ''night.edf''
       = Inr (\<lparr>error = None, success = True, converter_used = Some ''convert_edf_annotations.py'',
               output_files = [''night Sleep profile.txt'', ''night Classification Arousals.txt'',
                               ''night Flow Events.txt'']\<rparr>,
              [[''python3'', ''code/convert_edf_annotations.py'', ''night.edf'']])"
    by (simp add: dispatch_eval path_eval night_machine_def late_run_def Let_def
        convert_edf_annotations_main_def 1)
  show ?thesis using 1 2 by (rule conjI)
qed

text \<open>
  C8 (as amended). Given a directory, the batch does not search its subdirectories: every
  recording it processes is an entry of the directory itself whose name ends in the
  recording extension, and every entry of the directory itself whose name ends in
  \<open>.EDF\<close> or in \<open>.edf\<close> is processed, each exactly once. The exit status is 0 exactly
  when at least one recording was found and the dispatcher's outcome for every one of
  them has its success flag set. Nothing is said of an entry whose extension is written
  in another letter case, nor of what the success flag is worth.
\<close>

theorem batch_directory:
  assumes "is_listing entries"
  shows "distinct (edf_files d entries) \<and> distinct (map str_path (edf_files d entries))
   \<and> (\<forall>nm \<in> set (map node_name entries). suffix ''.EDF'' nm \<or> suffix ''.edf'' nm
         \<longrightarrow> path_div d nm \<in> set (edf_files d entries))
   \<and> (\<forall>f \<in> set (edf_files d entries). \<exists>nm \<in> set (map node_name entries).
         f = path_div d nm \<and> suffix ''.edf'' (lower nm))
   \<and> (convert_directory M d (Dir n entries) = Inr (Some b) \<longrightarrow>
         map fst (results b) = map str_path (edf_files d entries)
         \<and> total b = length (edf_files d entries)
         \<and> success_count b + failed_count b = total b)
   \<and> (main_directory M d (Dir n entries) = 0
         \<longleftrightarrow> edf_files d entries \<noteq> [] \<and> list_all (reports_success M) (edf_files d entries))"
proof -
  note l = edf_files_listing [OF assms, of d]
  have c: "convert_directory M d (Dir n entries) = Inr (Some b) \<longrightarrow>
         map fst (results b) = map str_path (edf_files d entries)
         \<and> total b = length (edf_files d entries)
         \<and> success_count b + failed_count b = total b"
    using convert_directory_Some [of M d n entries b] by blast
  show ?thesis
    apply (intro conjI)
         apply (rule l(1))
        apply (rule l(2))
       apply (rule l(3))
      apply (rule l(4))
     apply (rule c)
    apply (rule main_directory_zero)
    done
qed

theorem batch_directory_witness:
  "is_listing night_entries
   \<and> edf_files (Path ''.'') night_entries = [Path ''night.edf'']
   \<and> distinct (edf_files (Path ''.'') night_entries)
   \<and> convert_directory (night_machine 1 ok_run) (Path ''.'') (Dir ''.'' night_entries)
     = Inr (Some \<lparr>total = 1, success_count = 1, failed_count = 0,
                  results = [(''night.edf'',
                    \<lparr>error = None, success = True, converter_used = Some ''convert_edf_annotations.py'',
                     output_files = [''night Sleep profile.txt'', ''night Classification Arousals.txt'',
                                     ''night Flow Events.txt'']\<rparr>)]\<rparr>)
   \<and> main_directory (night_machine 1 ok_run) (Path ''.'') (Dir ''.'' night_entries) = 0
   \<and> list_all (reports_success (night_machine 1 ok_run)) (edf_files (Path ''.'') night_entries)"
proof -
  note t = batch_directory [OF night_listing, of "Path ''.''" "night_machine 1 ok_run" "''.''"]
  note d = t [THEN conjunct1]
  note m = t [THEN conjunct2, THEN conjunct2, THEN conjunct2, THEN conjunct2, THEN conjunct2]
  from m [THEN iffD1, OF night_exit]
  have a: "list_all (reports_success (night_machine 1 ok_run)) (edf_files (Path ''.'') night_entries)"
    by (rule conjunct2)
  show ?thesis
    apply (intro conjI)
         apply (rule night_listing)
        apply (rule night_files)
       apply (rule d)
      apply (rule night_batch)
     apply (rule night_exit)
    apply (rule a)
    done
qed

text \<open>
  C8 as stated fails: in a directory that holds \<open>night.edf\<close> and \<open>sub/c.EDF\<close> the
  batch processes \<open>night.edf\<close> alone.
\<close>

theorem batch_counterexample:
  "set (map str_path (edf_files (Path ''.'') night_entries))
     \<noteq> set (spec_recordings (Path ''.'') night_directory)"
  unfolding night_files
  by (simp add: spec_recordings_def night_directory_def night_entries_def path_eval
      lower_def lower_char_def suffix_def)

text \<open>
  C9. The spreadsheet extractor puts a row's time of day on the header's calendar date and
  never moves to the next day: the timestamp it computes always carries the header's year,
  month and day, so a row whose time of day is earlier than the header start time gets a
  timestamp before the recording's start. The row \<open>00:30:00.00\<close> of a recording that
  starts at 22:00:00 is such a row.
\<close>

theorem timestamp_no_rollover:
  "year (parse_timestamp ts st) = year st \<and> month (parse_timestamp ts st) = month st
   \<and> day (parse_timestamp ts st) = day st
   \<and> (time_less (parse_timestamp ts st) st \<longrightarrow> datetime_less (parse_timestamp ts st) st)
   \<and> time_less (parse_timestamp after_midnight scenario_start) scenario_start
   \<and> datetime_less (parse_timestamp after_midnight scenario_start) scenario_start"
proof -
  note d = parse_timestamp_date [of ts st]
  have 1: "time_less (parse_timestamp ts st) st \<longrightarrow> datetime_less (parse_timestamp ts st) st"
    using d by (simp add: datetime_less_def)
  have 2: "time_less (parse_timestamp after_midnight scenario_start) scenario_start"
    unfolding after_midnight_parse by (simp add: time_less_def scenario_start_def)
  have 3: "datetime_less (parse_timestamp after_midnight scenario_start) scenario_start"
    using 2 parse_timestamp_date [of after_midnight scenario_start] by (simp add: datetime_less_def)
  show ?thesis using d 1 2 3 by simp
qed

theorem timestamp_no_rollover_witness:
  "time_less (parse_timestamp after_midnight scenario_start) scenario_start
   \<and> datetime_less (parse_timestamp after_midnight scenario_start) scenario_start
   \<and> year (parse_timestamp after_midnight scenario_start) = year scenario_start
   \<and> month (parse_timestamp after_midnight scenario_start) = month scenario_start
   \<and> day (parse_timestamp after_midnight scenario_start) = day scenario_start"
  using timestamp_no_rollover [of after_midnight scenario_start] by blast

text \<open>
  C10. The specification has the classifier return a result dictionary for every path.
  The code raises on a path with an empty name: for the directory \<open>/\<close>, which exists and
  which neither reader can open, \<open>with_suffix\<close> raises \<open>ValueError\<close> outside the \<open>try\<close>
  blocks.
\<close>

theorem classifier_raises_on_root:
  "detect_edf_format root_machine ''/''
     = Inl (ValueError (''PosixPath('' @ [CHR 0x27] @ ''/'' @ [CHR 0x27] @ '') has an empty name''))"
  by (simp add: dispatch_eval path_eval root_machine_def)


end
